theory Spec2Isabelle
  imports Main "HOL-Library.Sublist" "HOL-Library.AList"
begin

section \<open>Errors\<close>

text \<open>
  Every \<^verbatim>\<open>throw new Error(`...`)\<close> of \<^verbatim>\<open>amplifyUtils.ts\<close> raises a plain
  JavaScript \<^verbatim>\<open>Error\<close> that carries a message; the model keeps the message text.
  Errors raised by Node's \<^verbatim>\<open>fs\<close> module carry their code and the path, a
  \<^verbatim>\<open>TypeError\<close> raised by the runtime is a constructor of its own, and an error
  raised by a caller-supplied function (the transform engine) is kept as it is.
\<close>

datatype error =
    Error string
  | ENOENT string
  | ENOTDIR string
  | EISDIR string
  | EEXIST string
  | EPERM string
  | TypeError string
  | External string

section \<open>DirectoryUploader: per-file retry\<close>

text \<open>
  \<^verbatim>\<open>opts.upload\<close> is supplied by the caller and is effectful: it is a function of
  the caller's state \<open>'s\<close> and the blob \<open>(Key, Body)\<close>, returning either the error
  it rejects with or the location string it resolves to, and the next state.
  The world of \<^verbatim>\<open>uploadFile\<close> also records, in order, every invocation of
  \<^verbatim>\<open>opts.upload\<close> with its outcome and every \<^verbatim>\<open>setTimeout\<close> delay awaited.
\<close>

type_synonym blob = "string \<times> string"

type_synonym ('s, 'e) upload = "'s \<Rightarrow> blob \<Rightarrow> ('e + string) \<times> 's"

datatype 'e event = Upload blob "'e + string" | Timeout int

record ('s, 'e) world =
  transport :: 's
  events :: "'e event list"

definition call_upload ::
  "('s, 'e) upload \<Rightarrow> blob \<Rightarrow> ('s, 'e) world \<Rightarrow> ('e + string) \<times> ('s, 'e) world" where
  "call_upload upload b w =
     (case upload (transport w) b of
        (r, s') \<Rightarrow> (r, \<lparr>transport = s', events = events w @ [Upload b r]\<rparr>))"

text \<open>
  \<^verbatim>\<open>await new Promise((res, rej) => setTimeout(() => res(), backoffMS))\<close>: the promise
  always resolves, after the delay.
\<close>

definition setTimeout :: "int \<Rightarrow> ('s, 'e) world \<Rightarrow> ('s, 'e) world" where
  "setTimeout ms w = w\<lparr>events := events w @ [Timeout ms]\<rparr>"

text \<open>
  \<^verbatim>\<open>uploadFile(opts, key, body, backoffMS = 1000, numTries = 5)\<close>.
  In the \<^verbatim>\<open>catch\<close> block the recursive call is awaited: when it rejects, its error
  leaves the block; when it resolves, control reaches \<^verbatim>\<open>throw e\<close>.
\<close>

function uploadFile ::
  "('s, 'e) upload \<Rightarrow> string \<Rightarrow> string \<Rightarrow> int \<Rightarrow> int \<Rightarrow> ('s, 'e) world
     \<Rightarrow> ('e + string) \<times> ('s, 'e) world" where
  "uploadFile upload key body backoffMS numTries w =
     (case call_upload upload (key, body) w of
        (Inr loc, w1) \<Rightarrow> (Inr loc, w1)
      | (Inl e, w1) \<Rightarrow>
          if numTries > 1 then
            (case uploadFile upload key body (backoffMS * 2) (numTries - 1)
                    (setTimeout backoffMS w1) of
               (Inl e', w2) \<Rightarrow> (Inl e', w2)
             | (Inr _, w2) \<Rightarrow> (Inl e, w2))
          else (Inl e, w1))"
  by pat_completeness auto
termination
  by (relation "measure (\<lambda>(upload, key, body, backoffMS, numTries, w). nat numTries)") auto

declare uploadFile.simps [simp del]

text \<open>The call \<^verbatim>\<open>uploadFile(opts, uploadKey, resourceContents)\<close> of \<^verbatim>\<open>uploadDirectory\<close>.\<close>

definition uploadFile_default ::
  "('s, 'e) upload \<Rightarrow> string \<Rightarrow> string \<Rightarrow> ('s, 'e) world \<Rightarrow> ('e + string) \<times> ('s, 'e) world" where
  "uploadFile_default upload key body w = uploadFile upload key body 1000 5 w"

text \<open>
  A test stub for \<^verbatim>\<open>opts.upload\<close>: its state counts the invocations so far, and the
  outcome of invocation number \<open>n\<close> (from 0) is \<open>script n\<close>. The two scripts
  below reject with the number of the invocation as the error, so that the error which
  reaches the caller tells which attempt raised it.
\<close>

definition scripted :: "(nat \<Rightarrow> 'e + string) \<Rightarrow> (nat, 'e) upload" where
  "scripted script n b = (script n, Suc n)"

definition fails_first :: "nat \<Rightarrow> nat \<Rightarrow> nat + string" where
  "fails_first k n = (if n < k then Inl n else Inr ''https://bucket/key'')"

definition always_fails :: "nat \<Rightarrow> nat + string" where
  "always_fails n = Inl n"

definition initial_world :: "'s \<Rightarrow> ('s, 'e) world" where
  "initial_world s = \<lparr>transport = s, events = []\<rparr>"

section \<open>JavaScript strings and objects\<close>

text \<open>
  \<^verbatim>\<open>s.split(sep)\<close> for a separator that matches single characters: the pieces
  between the separators, in order; there is always at least one piece.
\<close>

fun split_where :: "(char \<Rightarrow> bool) \<Rightarrow> string \<Rightarrow> string list" where
  "split_where P [] = [[]]"
| "split_where P (c # cs) =
     (if P c then [] # split_where P cs
      else (case split_where P cs of
              p # ps \<Rightarrow> (c # p) # ps
            | [] \<Rightarrow> [[c]]))"

text \<open>\<^verbatim>\<open>parts.join(sep)\<close>.\<close>

fun join :: "string \<Rightarrow> string list \<Rightarrow> string" where
  "join sep [] = []"
| "join sep [p] = p"
| "join sep (p # q # ps) = p @ sep @ join sep (q # ps)"

text \<open>The character class \<^verbatim>\<open>[A-Za-z]\<close>.\<close>

definition is_alpha :: "char \<Rightarrow> bool" where
  "is_alpha c =
     (let n = (of_char c :: nat) in (65 \<le> n \<and> n \<le> 90) \<or> (97 \<le> n \<and> n \<le> 122))"

text \<open>
  A plain object is an association list in the order of \<^verbatim>\<open>Object.keys\<close>, with
  distinct keys. \<^verbatim>\<open>obj[k] = v\<close> replaces the value of an existing key in place
  and appends a new key at the end, which is \<^const>\<open>AList.update\<close>; the object spread
  \<^verbatim>\<open>{...acc, [k]: v}\<close> is the same operation on a copy. Keys are file names and
  logical ids: none of them is an array index (which JavaScript would order first), and
  none that is assigned is \<^verbatim>\<open>__proto__\<close>.
\<close>

definition keys :: "('k \<times> 'v) list \<Rightarrow> 'k list" where
  "keys obj = map fst obj"

text \<open>
  A property read \<^verbatim>\<open>obj[k]\<close> with a key that is not an own property of a plain
  object finds what the object inherits from \<^verbatim>\<open>Object.prototype\<close>: for the names
  below a function (for \<^verbatim>\<open>__proto__\<close> the prototype object itself), which is
  truthy, and \<^verbatim>\<open>undefined\<close> for every other name.
\<close>

definition object_prototype_members :: "string list" where
  "object_prototype_members =
     [''constructor'', ''__defineGetter__'', ''__defineSetter__'', ''hasOwnProperty'',
      ''__lookupGetter__'', ''__lookupSetter__'', ''isPrototypeOf'',
      ''propertyIsEnumerable'', ''toString'', ''valueOf'', ''__proto__'',
      ''toLocaleString'']"

section \<open>Data model\<close>

text \<open>
  Values of a template: the intrinsic functions built by \<^verbatim>\<open>Fn.Ref\<close>,
  \<^verbatim>\<open>Fn.GetAtt\<close> and \<^verbatim>\<open>Fn.Join\<close> of \<^verbatim>\<open>cloudform-types\<close>, strings, nested
  objects, the member of \<^verbatim>\<open>Object.prototype\<close> of a given name (the value of a
  lookup that finds no own property and an inherited one), and \<^verbatim>\<open>undefined\<close>
  (the value of a lookup that finds no property). \<^verbatim>\<open>JSON.stringify\<close> drops an
  entry that holds \<^verbatim>\<open>undefined\<close> or a function.
\<close>

datatype cfval =
    Str string
  | Ref string
  | GetAtt string string
  | Join string "cfval list"
  | Obj "(string \<times> cfval) list"
  | Inherited string
  | Undefined

record resource =
  Type :: string
  Properties :: "(string \<times> cfval) list"
  DependsOn :: "string list option"

text \<open>
  A template. \<^verbatim>\<open>Parameters\<close> is optional in a template; \<^verbatim>\<open>Object.keys\<close> of an
  absent \<^verbatim>\<open>Parameters\<close> raises a \<^verbatim>\<open>TypeError\<close>.
\<close>

record template =
  Parameters :: "(string \<times> cfval) list option"
  Resources :: "(string \<times> resource) list"

text \<open>\<^verbatim>\<open>DeploymentResources\<close>, the output of the transform and of the merge.\<close>

record deployment =
  schema :: string
  resolvers :: "(string \<times> string) list"
  stacks :: "(string \<times> template) list"
  rootStack :: template
  functions' :: "(string \<times> string) list"

text \<open>
  \<^verbatim>\<open>Partial<DeploymentResources>\<close> as far as the merge reads it: the user's
  configuration, every field optional.
\<close>

record user_config =
  user_schema :: "string option"
  user_resolvers :: "(string \<times> string) list option"
  user_stacks :: "(string \<times> template) list option"

text \<open>
  The constants \<^verbatim>\<open>ResourceConstants.PARAMETERS.AppSyncApiId\<close>,
  \<^verbatim>\<open>.S3DeploymentBucket\<close>, \<^verbatim>\<open>.S3DeploymentRootKey\<close> and
  \<^verbatim>\<open>ResourceConstants.RESOURCES.GraphQLAPILogicalID\<close> are imported from
  \<^verbatim>\<open>graphql-transformer-common\<close>; the merge takes them as a parameter.
\<close>

record resource_constants =
  AppSyncApiId :: string
  GraphQLAPILogicalID :: string
  S3DeploymentBucket :: string
  S3DeploymentRootKey :: string

section \<open>DeploymentMerger\<close>

definition resourceTypesToDependOn :: "string list" where
  "resourceTypesToDependOn =
     [''AWS::CloudFormation::Stack'', ''AWS::AppSync::GraphQLApi'',
      ''AWS::AppSync::GraphQLSchema'']"

text \<open>
  \<^verbatim>\<open>resourceTypesToDependOn\<close> is an object literal whose three own properties hold
  \<^verbatim>\<open>true\<close>. The filter keeps a resource id when the read
  \<^verbatim>\<open>resourceTypesToDependOn[resource.Type]\<close> is truthy: when the type is one of the
  three own keys or the name of an inherited member.
\<close>

definition allResourceIds :: "template \<Rightarrow> string list" where
  "allResourceIds root =
     filter (\<lambda>k. case map_of (Resources root) k of
                    Some resource \<Rightarrow>
                      Type resource \<in> set resourceTypesToDependOn \<or>
                      Type resource \<in> set object_prototype_members
                  | None \<Rightarrow> False)
            (keys (Resources root))"

definition customStackParams :: "resource_constants \<Rightarrow> string list \<Rightarrow> (string \<times> cfval) list" where
  "customStackParams rc parametersKeys =
     AList.update (AppSyncApiId rc) (GetAtt (GraphQLAPILogicalID rc) ''ApiId'')
       (foldl (\<lambda>acc k. AList.update k (Ref k) acc) [] parametersKeys)"

text \<open>
  The property read \<^verbatim>\<open>customStackParams[k]\<close>; \<^verbatim>\<open>customStackParams\<close> is a plain
  object, built by object spread.
\<close>

definition get :: "(string \<times> cfval) list \<Rightarrow> string \<Rightarrow> cfval" where
  "get obj k =
     (case map_of obj k of
        Some v \<Rightarrow> v
      | None \<Rightarrow> if k \<in> set object_prototype_members then Inherited k else Undefined)"

definition parametersForStack ::
  "(string \<times> cfval) list \<Rightarrow> (string \<times> cfval) list \<Rightarrow> (string \<times> cfval) list" where
  "parametersForStack params declared =
     foldl (\<lambda>acc k. AList.update k (get params k) acc) [] (keys declared)"

text \<open>\<^verbatim>\<open>userStack.split(/[^A-Za-z]/).join('')\<close>.\<close>

definition stackResourceId :: "string \<Rightarrow> string" where
  "stackResourceId userStack = join [] (split_where (\<lambda>c. \<not> is_alpha c) userStack)"

text \<open>
  \<^verbatim>\<open>new CloudFormation.Stack(properties).dependsOn(ids)\<close> of \<^verbatim>\<open>cloudform-types\<close>:
  a resource of type \<^verbatim>\<open>AWS::CloudFormation::Stack\<close> with the given properties,
  whose \<^verbatim>\<open>DependsOn\<close> is set to the given list.
\<close>

definition customNestedStack ::
  "resource_constants \<Rightarrow> string list \<Rightarrow> (string \<times> cfval) list \<Rightarrow> string \<Rightarrow> resource" where
  "customNestedStack rc ids params userStack =
     \<lparr>Type = ''AWS::CloudFormation::Stack'',
      Properties =
        [(''Parameters'', Obj params),
         (''TemplateURL'',
            Join ''/'' [Str ''https://s3.amazonaws.com'',
                        Ref (S3DeploymentBucket rc),
                        Ref (S3DeploymentRootKey rc),
                        Str ''stacks'',
                        Str userStack])],
      DependsOn = Some ids\<rparr>"

text \<open>
  The message of the error thrown for a user stack that the transform also generated.
  In the template literal the backslash at the end of the first line continues the
  line, and the indentation of the second line belongs to the message.
\<close>

definition duplicate_stack_message :: "string \<Rightarrow> string" where
  "duplicate_stack_message userStack =
     ''You cannot provide a stack named '' @ userStack @ '' as it '' @
     ''            will be overwritten by a stack generated by the GraphQL Transform.''"

definition undefined_to_object :: error where
  "undefined_to_object = TypeError ''Cannot convert undefined or null to object''"

text \<open>
  The loop \<^verbatim>\<open>for (const userStack of Object.keys(userStacks))\<close>. The transform
  output is mutated in place: the loop takes it and returns it as it is when the loop
  ends or throws. A stack of the transform output is a template, an object, which is
  truthy: the test \<^verbatim>\<open>if (transformOutput.stacks[userStack])\<close> is true when the key
  is present in the object, and also when it is the name of a member that the object
  inherits.
\<close>

fun mergeStacks ::
  "resource_constants \<Rightarrow> string list \<Rightarrow> (string \<times> cfval) list \<Rightarrow> (string \<times> template) list
     \<Rightarrow> string list \<Rightarrow> deployment \<Rightarrow> (error + unit) \<times> deployment" where
  "mergeStacks rc ids params userStacks [] t = (Inr (), t)"
| "mergeStacks rc ids params userStacks (userStack # rest) t =
     (if map_of (stacks t) userStack \<noteq> None \<or> userStack \<in> set object_prototype_members
      then (Inl (Error (duplicate_stack_message userStack)), t)
      else
        (case map_of userStacks userStack of
           None \<Rightarrow> (Inl (TypeError ''Cannot read property Parameters of undefined''), t)
         | Some userDefinedStack \<Rightarrow>
             (case Parameters userDefinedStack of
                None \<Rightarrow> (Inl undefined_to_object, t)
              | Some declared \<Rightarrow>
                  let t1 = t\<lparr>stacks := AList.update userStack userDefinedStack (stacks t)\<rparr>;
                      nested = customNestedStack rc ids (parametersForStack params declared)
                                 userStack;
                      t2 = t1\<lparr>rootStack := (rootStack t1)
                              \<lparr>Resources := AList.update (stackResourceId userStack) nested
                                             (Resources (rootStack t1))\<rparr>\<rparr>
                  in mergeStacks rc ids params userStacks rest t2)))"

text \<open>\<^verbatim>\<open>for (const userResolver of Object.keys(userResolvers))\<close>.\<close>

definition mergeResolvers :: "(string \<times> string) list \<Rightarrow> (string \<times> string) list \<Rightarrow> (string \<times> string) list" where
  "mergeResolvers userResolvers transformResolvers =
     foldl (\<lambda>acc userResolver.
              case map_of userResolvers userResolver of
                Some v \<Rightarrow> AList.update userResolver v acc
              | None \<Rightarrow> acc)
           transformResolvers (keys userResolvers)"

text \<open>
  \<^verbatim>\<open>mergeUserConfigWithTransformOutput(userConfig, transformOutput)\<close>. The result
  is the value returned or the error thrown, paired with the contents of the caller's
  \<^verbatim>\<open>transformOutput\<close> object after the call: the function writes into its
  \<^verbatim>\<open>resolvers\<close>, \<^verbatim>\<open>stacks\<close> and \<^verbatim>\<open>rootStack.Resources\<close>, and the object
  returned shares all three.
\<close>

definition mergeUserConfigWithTransformOutput ::
  "resource_constants \<Rightarrow> user_config \<Rightarrow> deployment \<Rightarrow> (error + deployment) \<times> deployment" where
  "mergeUserConfigWithTransformOutput rc userConfig transformOutput =
     (let userResolvers = (case user_resolvers userConfig of Some r \<Rightarrow> r | None \<Rightarrow> []);
          t0 = transformOutput\<lparr>resolvers :=
                 mergeResolvers userResolvers (resolvers transformOutput)\<rparr>;
          userStacks = (case user_stacks userConfig of Some s \<Rightarrow> s | None \<Rightarrow> []);
          ids = allResourceIds (rootStack t0)
      in case Parameters (rootStack t0) of
           None \<Rightarrow> (Inl undefined_to_object, t0)
         | Some rootParameters \<Rightarrow>
             (case mergeStacks rc ids (customStackParams rc (keys rootParameters))
                     userStacks (keys userStacks) t0 of
                (Inl e, t') \<Rightarrow> (Inl e, t')
              | (Inr _, t') \<Rightarrow> (Inr t', t')))"

section \<open>The merge on objects in a store\<close>

text \<open>
  The merge writes into three objects that it reaches from \<^verbatim>\<open>transformOutput\<close>:
  \<^verbatim>\<open>transformOutput.resolvers\<close>, \<^verbatim>\<open>transformOutput.stacks\<close> and
  \<^verbatim>\<open>transformOutput.rootStack.Resources\<close>. To speak of several bundles and of several
  runs, these objects live in a store, at addresses. A bundle holds the addresses of its
  three objects; the fields that the merge only reads are kept as values. The templates
  held in a stacks object are never written to.
\<close>

record store =
  resolver_objects :: "nat \<Rightarrow> (string \<times> string) list"
  stack_objects :: "nat \<Rightarrow> (string \<times> template) list"
  resource_objects :: "nat \<Rightarrow> (string \<times> resource) list"

record bundle_ref =
  bundle_schema :: string
  bundle_resolvers :: nat
  bundle_stacks :: nat
  bundle_rootParameters :: "(string \<times> cfval) list option"
  bundle_rootResources :: nat
  bundle_functions :: "(string \<times> string) list"

text \<open>The structure of a bundle: what its fields hold in a given store.\<close>

definition contents :: "store \<Rightarrow> bundle_ref \<Rightarrow> deployment" where
  "contents h b =
     \<lparr>schema = bundle_schema b,
      resolvers = resolver_objects h (bundle_resolvers b),
      stacks = stack_objects h (bundle_stacks b),
      rootStack = \<lparr>Parameters = bundle_rootParameters b,
                   Resources = resource_objects h (bundle_rootResources b)\<rparr>,
      functions' = bundle_functions b\<rparr>"

text \<open>Two bundles are separate when they share none of the three objects.\<close>

definition separate :: "bundle_ref \<Rightarrow> bundle_ref \<Rightarrow> bool" where
  "separate b1 b2 =
     (bundle_resolvers b1 \<noteq> bundle_resolvers b2 \<and>
      bundle_stacks b1 \<noteq> bundle_stacks b2 \<and>
      bundle_rootResources b1 \<noteq> bundle_rootResources b2)"

text \<open>The loop over the user stacks, writing into the store.\<close>

fun mergeStacks_in_store ::
  "resource_constants \<Rightarrow> string list \<Rightarrow> (string \<times> cfval) list \<Rightarrow> (string \<times> template) list
     \<Rightarrow> string list \<Rightarrow> bundle_ref \<Rightarrow> store \<Rightarrow> (error + unit) \<times> store" where
  "mergeStacks_in_store rc ids params userStacks [] b h = (Inr (), h)"
| "mergeStacks_in_store rc ids params userStacks (userStack # rest) b h =
     (let transformStacks = stack_objects h (bundle_stacks b) in
      if map_of transformStacks userStack \<noteq> None \<or> userStack \<in> set object_prototype_members
      then (Inl (Error (duplicate_stack_message userStack)), h)
      else
        (case map_of userStacks userStack of
           None \<Rightarrow> (Inl (TypeError ''Cannot read property Parameters of undefined''), h)
         | Some userDefinedStack \<Rightarrow>
             (case Parameters userDefinedStack of
                None \<Rightarrow> (Inl undefined_to_object, h)
              | Some declared \<Rightarrow>
                  let h1 = h\<lparr>stack_objects := (stack_objects h)
                              (bundle_stacks b :=
                                 AList.update userStack userDefinedStack transformStacks)\<rparr>;
                      nested = customNestedStack rc ids (parametersForStack params declared)
                                 userStack;
                      h2 = h1\<lparr>resource_objects := (resource_objects h1)
                               (bundle_rootResources b :=
                                  AList.update (stackResourceId userStack) nested
                                    (resource_objects h1 (bundle_rootResources b)))\<rparr>
                  in mergeStacks_in_store rc ids params userStacks rest b h2)))"

text \<open>
  \<^verbatim>\<open>mergeUserConfigWithTransformOutput\<close> on a bundle in the store. The object it
  returns, \<^verbatim>\<open>{...transformOutput, resolvers: transformResolvers, stacks: transformStacks}\<close>,
  has the fields of \<^verbatim>\<open>transformOutput\<close>: it is the same bundle of addresses.
\<close>

definition merge_in_store ::
  "resource_constants \<Rightarrow> user_config \<Rightarrow> bundle_ref \<Rightarrow> store \<Rightarrow> (error + bundle_ref) \<times> store" where
  "merge_in_store rc userConfig b h =
     (let userResolvers = (case user_resolvers userConfig of Some r \<Rightarrow> r | None \<Rightarrow> []);
          h0 = h\<lparr>resolver_objects := (resolver_objects h)
                     (bundle_resolvers b :=
                        mergeResolvers userResolvers (resolver_objects h (bundle_resolvers b)))\<rparr>;
          userStacks = (case user_stacks userConfig of Some s \<Rightarrow> s | None \<Rightarrow> []);
          ids = allResourceIds (rootStack (contents h0 b))
      in case bundle_rootParameters b of
           None \<Rightarrow> (Inl undefined_to_object, h0)
         | Some rootParameters \<Rightarrow>
             (case mergeStacks_in_store rc ids (customStackParams rc (keys rootParameters))
                     userStacks (keys userStacks) b h0 of
                (Inl e, h') \<Rightarrow> (Inl e, h')
              | (Inr _, h') \<Rightarrow> (Inr b, h')))"

text \<open>
  What a caller holds after a run: the error thrown, or the structure of the bundle
  returned.
\<close>

definition outcome :: "store \<Rightarrow> error + bundle_ref \<Rightarrow> error + deployment" where
  "outcome h r = (case r of Inl e \<Rightarrow> Inl e | Inr b \<Rightarrow> Inr (contents h b))"

section \<open>Example inputs\<close>

definition example_constants :: resource_constants where
  "example_constants =
     \<lparr>AppSyncApiId = ''AppSyncApiId'', GraphQLAPILogicalID = ''GraphQLAPI'',
      S3DeploymentBucket = ''S3DeploymentBucket'',
      S3DeploymentRootKey = ''S3DeploymentRootKey''\<rparr>"

definition example_transform :: deployment where
  "example_transform =
     \<lparr>schema = ''type Post { id: ID! }'',
      resolvers = [(''Query.getPost.req.vtl'', ''generated'')],
      stacks = [(''Post.json'', \<lparr>Parameters = Some [], Resources = []\<rparr>)],
      rootStack =
        \<lparr>Parameters = Some [(''env'', Obj [(''Type'', Str ''String'')])],
         Resources =
           [(''GraphQLAPI'',
               \<lparr>Type = ''AWS::AppSync::GraphQLApi'', Properties = [], DependsOn = None\<rparr>),
            (''AuthRole'',
               \<lparr>Type = ''AWS::IAM::Role'', Properties = [], DependsOn = None\<rparr>),
            (''Post'',
               \<lparr>Type = ''AWS::CloudFormation::Stack'', Properties = [],
                DependsOn = Some [''GraphQLAPI'']\<rparr>)]\<rparr>,
      functions' = []\<rparr>"

definition example_user :: user_config where
  "example_user =
     \<lparr>user_schema = Some ''type Post { id: ID! }'',
      user_resolvers = Some [(''Query.getPost.req.vtl'', ''custom'')],
      user_stacks = Some
        [(''custom.json'',
            \<lparr>Parameters = Some [(''env'', Obj []), (''AppSyncApiId'', Obj []),
                                (''Other'', Obj []), (''toString'', Obj [])],
             Resources = []\<rparr>)]\<rparr>"

definition example_user_colliding :: user_config where
  "example_user_colliding =
     \<lparr>user_schema = Some ''type Post { id: ID! }'',
      user_resolvers = None,
      user_stacks = Some
        [(''custom.json'', \<lparr>Parameters = Some [], Resources = []\<rparr>),
         (''Post.json'', \<lparr>Parameters = Some [], Resources = []\<rparr>)]\<rparr>"


definition example_transform_two_stacks :: deployment where
  "example_transform_two_stacks =
     example_transform\<lparr>stacks :=
       [(''Post.json'', \<lparr>Parameters = Some [], Resources = []\<rparr>),
        (''Comment.json'', \<lparr>Parameters = Some [], Resources = []\<rparr>)]\<rparr>"

definition example_transform_no_parameters :: deployment where
  "example_transform_no_parameters =
     example_transform\<lparr>rootStack := \<lparr>Parameters = None, Resources = []\<rparr>\<rparr>"

definition example_user_masked :: user_config where
  "example_user_masked =
     \<lparr>user_schema = Some ''type Post { id: ID! }'',
      user_resolvers = None,
      user_stacks = Some
        [(''custom.json'', \<lparr>Parameters = None, Resources = []\<rparr>),
         (''Post.json'', \<lparr>Parameters = Some [], Resources = []\<rparr>)]\<rparr>"

definition example_user_two_collisions :: user_config where
  "example_user_two_collisions =
     \<lparr>user_schema = Some ''type Post { id: ID! }'',
      user_resolvers = None,
      user_stacks = Some
        [(''Post.json'', \<lparr>Parameters = Some [], Resources = []\<rparr>),
         (''Comment.json'', \<lparr>Parameters = Some [], Resources = []\<rparr>)]\<rparr>"

text \<open>
  A store with two separate bundles of the structure of \<^const>\<open>example_transform\<close>, at
  the addresses 1 and 2.
\<close>

definition example_store :: store where
  "example_store =
     \<lparr>resolver_objects = (\<lambda>a. if a = 1 \<or> a = 2 then resolvers example_transform else []),
      stack_objects = (\<lambda>a. if a = 1 \<or> a = 2 then stacks example_transform else []),
      resource_objects =
        (\<lambda>a. if a = 1 \<or> a = 2 then Resources (rootStack example_transform) else [])\<rparr>"

definition example_bundle :: "nat \<Rightarrow> bundle_ref" where
  "example_bundle a =
     \<lparr>bundle_schema = schema example_transform,
      bundle_resolvers = a, bundle_stacks = a,
      bundle_rootParameters = Parameters (rootStack example_transform),
      bundle_rootResources = a,
      bundle_functions = functions' example_transform\<rparr>"

section \<open>The file system\<close>

text \<open>
  Node's \<^verbatim>\<open>fs\<close> module over a file system of regular files and directories: an
  association list from paths to nodes. Paths are strings; a directory path is
  normalised and has no trailing separator, and a file name has no separator in it, so
  that \<^verbatim>\<open>path.join(dir, name)\<close>, \<^verbatim>\<open>path.normalize(dir + '/' + name)\<close> and
  \<^verbatim>\<open>`${dir}/${name}`\<close> are all \<open>dir @ ''/'' @ name\<close>.
\<close>

datatype node = File string | Dir

type_synonym filesystem = "(string \<times> node) list"

definition path_join :: "string \<Rightarrow> string \<Rightarrow> string" where
  "path_join dir name = dir @ ''/'' @ name"

definition dirname :: "string \<Rightarrow> string" where
  "dirname p = join ''/'' (butlast (split_where (\<lambda>c. c = CHR ''/'') p))"

definition basename :: "string \<Rightarrow> string" where
  "basename p = last (split_where (\<lambda>c. c = CHR ''/'') p)"

definition existsSync :: "filesystem \<Rightarrow> string \<Rightarrow> bool" where
  "existsSync fs p = (map_of fs p \<noteq> None)"

definition readdirSync :: "filesystem \<Rightarrow> string \<Rightarrow> error + string list" where
  "readdirSync fs dir =
     (case map_of fs dir of
        None \<Rightarrow> Inl (ENOENT dir)
      | Some (File _) \<Rightarrow> Inl (ENOTDIR dir)
      | Some Dir \<Rightarrow> Inr (map basename (filter (\<lambda>p. p \<noteq> dir \<and> dirname p = dir) (keys fs))))"

definition readFileSync :: "filesystem \<Rightarrow> string \<Rightarrow> error + string" where
  "readFileSync fs p =
     (case map_of fs p of
        None \<Rightarrow> Inl (ENOENT p)
      | Some Dir \<Rightarrow> Inl (EISDIR p)
      | Some (File content) \<Rightarrow> Inr content)"

definition lstatSync :: "filesystem \<Rightarrow> string \<Rightarrow> error + node" where
  "lstatSync fs p = (case map_of fs p of None \<Rightarrow> Inl (ENOENT p) | Some n \<Rightarrow> Inr n)"

definition unlinkSync :: "string \<Rightarrow> filesystem \<Rightarrow> (error + unit) \<times> filesystem" where
  "unlinkSync p fs =
     (case map_of fs p of
        None \<Rightarrow> (Inl (ENOENT p), fs)
      | Some Dir \<Rightarrow> (Inl (EPERM p), fs)
      | Some (File _) \<Rightarrow> (Inr (), AList.delete p fs))"

definition writeFileSync :: "string \<Rightarrow> string \<Rightarrow> filesystem \<Rightarrow> (error + unit) \<times> filesystem" where
  "writeFileSync p content fs =
     (case map_of fs p of
        Some Dir \<Rightarrow> (Inl (EISDIR p), fs)
      | _ \<Rightarrow>
          (case map_of fs (dirname p) of
             None \<Rightarrow> (Inl (ENOENT p), fs)
           | Some (File _) \<Rightarrow> (Inl (ENOTDIR p), fs)
           | Some Dir \<Rightarrow> (Inr (), AList.update p (File content) fs)))"

definition mkdirSync :: "string \<Rightarrow> filesystem \<Rightarrow> (error + unit) \<times> filesystem" where
  "mkdirSync p fs =
     (if existsSync fs p then (Inl (EEXIST p), fs)
      else
        (case map_of fs (dirname p) of
           None \<Rightarrow> (Inl (ENOENT p), fs)
         | Some (File _) \<Rightarrow> (Inl (ENOTDIR p), fs)
         | Some Dir \<Rightarrow> (Inr (), AList.update p Dir fs)))"

text \<open>
  The promisified wrappers \<^verbatim>\<open>readDir\<close>, \<^verbatim>\<open>readFile\<close>, \<^verbatim>\<open>lstat\<close> and
  \<^verbatim>\<open>exists\<close>: awaited at once wherever they are called, they resolve or reject as
  the synchronous calls return or throw.
\<close>

definition readDir :: "filesystem \<Rightarrow> string \<Rightarrow> error + string list" where
  "readDir fs dir = readdirSync fs dir"

definition readFile :: "filesystem \<Rightarrow> string \<Rightarrow> error + string" where
  "readFile fs p = readFileSync fs p"

definition lstat :: "filesystem \<Rightarrow> string \<Rightarrow> error + node" where
  "lstat fs p = lstatSync fs p"

definition exists :: "filesystem \<Rightarrow> string \<Rightarrow> bool" where
  "exists fs p = existsSync fs p"

section \<open>ProjectConfigurationLoader\<close>

definition extension :: "string \<Rightarrow> string" where
  "extension stackFile = last (split_where (\<lambda>c. c = CHR ''.'') stackFile)"

definition yaml_message :: "string \<Rightarrow> string" where
  "yaml_message stackFile =
     ''Yaml is not yet supported. Please convert the CloudFormation stack '' @ stackFile @
     '' to json.''"

definition invalid_extension_message :: "string \<Rightarrow> string" where
  "invalid_extension_message stackFile =
     ''Invalid extension .'' @ extension stackFile @ '' for stack '' @ stackFile"

definition throwIfNotJSON :: "string \<Rightarrow> error + unit" where
  "throwIfNotJSON stackFile =
     (if extension stackFile = ''yaml'' \<or> extension stackFile = ''yml''
      then Inl (Error (yaml_message stackFile))
      else if extension stackFile \<noteq> ''json''
      then Inl (Error (invalid_extension_message stackFile))
      else Inr ())"

text \<open>
  \<^verbatim>\<open>readSchemaDocuments\<close> recurses through the directories below the schema
  directory. The loop over one directory's entries takes the recursive call as the
  parameter \<open>rec\<close>; \<open>readSchemaDocuments n\<close> may descend \<open>n\<close> levels and is
  \<open>None\<close> when that does not suffice.
\<close>

fun readSchemaFiles ::
  "(string \<Rightarrow> (error + string list) option) \<Rightarrow> filesystem \<Rightarrow> string \<Rightarrow> string list
     \<Rightarrow> string list \<Rightarrow> (error + string list) option" where
  "readSchemaFiles rec fs schemaDirectoryPath [] schemaDocuments = Some (Inr schemaDocuments)"
| "readSchemaFiles rec fs schemaDirectoryPath (fileName # files) schemaDocuments =
     (let fullPath = schemaDirectoryPath @ ''/'' @ fileName in
      case lstat fs fullPath of
        Inl e \<Rightarrow> Some (Inl e)
      | Inr Dir \<Rightarrow>
          (case rec fullPath of
             None \<Rightarrow> None
           | Some (Inl e) \<Rightarrow> Some (Inl e)
           | Some (Inr childDocs) \<Rightarrow>
               readSchemaFiles rec fs schemaDirectoryPath files (schemaDocuments @ childDocs))
      | Inr (File _) \<Rightarrow>
          (case readFile fs fullPath of
             Inl e \<Rightarrow> Some (Inl e)
           | Inr schemaDoc \<Rightarrow>
               readSchemaFiles rec fs schemaDirectoryPath files (schemaDocuments @ [schemaDoc])))"

definition readSchemaDocuments_body ::
  "(string \<Rightarrow> (error + string list) option) \<Rightarrow> filesystem \<Rightarrow> string
     \<Rightarrow> (error + string list) option" where
  "readSchemaDocuments_body rec fs schemaDirectoryPath =
     (case readDir fs schemaDirectoryPath of
        Inl e \<Rightarrow> Some (Inl e)
      | Inr files \<Rightarrow> readSchemaFiles rec fs schemaDirectoryPath files [])"

fun readSchemaDocuments :: "nat \<Rightarrow> filesystem \<Rightarrow> string \<Rightarrow> (error + string list) option" where
  "readSchemaDocuments 0 fs = readSchemaDocuments_body (\<lambda>_. None) fs"
| "readSchemaDocuments (Suc n) fs = readSchemaDocuments_body (readSchemaDocuments n fs) fs"

definition readSchema :: "nat \<Rightarrow> filesystem \<Rightarrow> string \<Rightarrow> (error + string) option" where
  "readSchema fuel fs projectDirectory =
     (let schemaFilePath = path_join projectDirectory ''schema.graphql'';
          schemaDirectoryPath = path_join projectDirectory ''schema''
      in if exists fs schemaFilePath then Some (readFile fs schemaFilePath)
         else if exists fs schemaDirectoryPath then
           (case readSchemaDocuments fuel fs schemaDirectoryPath of
              None \<Rightarrow> None
            | Some (Inl e) \<Rightarrow> Some (Inl e)
            | Some (Inr docs) \<Rightarrow> Some (Inr (join [CHR 0x0A] docs)))
         else Some (Inl (Error (''Could not find a schema at '' @ schemaFilePath))))"

text \<open>The section \<^verbatim>\<open>// Load the resolvers.\<close> of \<^verbatim>\<open>readProjectConfiguration\<close>.\<close>

fun readResolverFiles ::
  "filesystem \<Rightarrow> string \<Rightarrow> string list \<Rightarrow> (string \<times> string) list
     \<Rightarrow> error + (string \<times> string) list" where
  "readResolverFiles fs resolverDirectory [] loaded = Inr loaded"
| "readResolverFiles fs resolverDirectory (resolverFile # files) loaded =
     (case readFile fs (path_join resolverDirectory resolverFile) of
        Inl e \<Rightarrow> Inl e
      | Inr content \<Rightarrow>
          readResolverFiles fs resolverDirectory files
            (AList.update resolverFile content loaded))"

definition readResolvers :: "filesystem \<Rightarrow> string \<Rightarrow> error + (string \<times> string) list" where
  "readResolvers fs projectDirectory =
     (let resolverDirectory = path_join projectDirectory ''resolvers'' in
      if exists fs resolverDirectory then
        (case readDir fs resolverDirectory of
           Inl e \<Rightarrow> Inl e
         | Inr resolverFiles \<Rightarrow> readResolverFiles fs resolverDirectory resolverFiles [])
      else Inr [])"

text \<open>
  The section \<^verbatim>\<open>// Load the stacks.\<close>. \<^verbatim>\<open>JSON.parse\<close> is the parameter
  \<open>parse\<close>: the template it returns, or \<open>None\<close> where it throws. In the message of
  the error thrown for a file that does not parse, the template literal interpolates
  \<^verbatim>\<open>stackFiles\<close>, the array of all the file names of the directory, which converts
  to its elements joined by commas.
\<close>

definition invalid_json_message :: "string list \<Rightarrow> string" where
  "invalid_json_message stackFiles =
     ''The CloudFormation template '' @ join '','' stackFiles @
     '' does not contain valid JSON.''"

fun readStackFiles ::
  "(string \<Rightarrow> template option) \<Rightarrow> filesystem \<Rightarrow> string \<Rightarrow> string list \<Rightarrow> string list
     \<Rightarrow> (string \<times> template) list \<Rightarrow> error + (string \<times> template) list" where
  "readStackFiles parse fs stacksDirectory stackFiles [] loaded = Inr loaded"
| "readStackFiles parse fs stacksDirectory stackFiles (stackFile # files) loaded =
     (case throwIfNotJSON stackFile of
        Inl e \<Rightarrow> Inl e
      | Inr _ \<Rightarrow>
          (case readFile fs (path_join stacksDirectory stackFile) of
             Inl e \<Rightarrow> Inl e
           | Inr stackBuffer \<Rightarrow>
               (case parse stackBuffer of
                  None \<Rightarrow> Inl (Error (invalid_json_message stackFiles))
                | Some stack \<Rightarrow>
                    readStackFiles parse fs stacksDirectory stackFiles files
                      (AList.update stackFile stack loaded))))"

definition readStacks ::
  "(string \<Rightarrow> template option) \<Rightarrow> filesystem \<Rightarrow> string \<Rightarrow> error + (string \<times> template) list" where
  "readStacks parse fs projectDirectory =
     (let stacksDirectory = path_join projectDirectory ''stacks'' in
      if exists fs stacksDirectory then
        (case readDir fs stacksDirectory of
           Inl e \<Rightarrow> Inl e
         | Inr stackFiles \<Rightarrow> readStackFiles parse fs stacksDirectory stackFiles stackFiles [])
      else Inr [])"

definition readProjectConfiguration ::
  "(string \<Rightarrow> template option) \<Rightarrow> nat \<Rightarrow> filesystem \<Rightarrow> string \<Rightarrow> (error + user_config) option" where
  "readProjectConfiguration parse fuel fs projectDirectory =
     (case readSchema fuel fs projectDirectory of
        None \<Rightarrow> None
      | Some (Inl e) \<Rightarrow> Some (Inl e)
      | Some (Inr schemaText) \<Rightarrow>
          Some (case readResolvers fs projectDirectory of
                  Inl e \<Rightarrow> Inl e
                | Inr loadedResolvers \<Rightarrow>
                    (case readStacks parse fs projectDirectory of
                       Inl e \<Rightarrow> Inl e
                     | Inr loadedStacks \<Rightarrow>
                         Inr \<lparr>user_schema = Some schemaText, user_resolvers = Some loadedResolvers,
                              user_stacks = Some loadedStacks\<rparr>)))"

section \<open>DeploymentWriter\<close>

text \<open>
  \<^verbatim>\<open>emptyDirectory\<close> recurses into every subdirectory. As for
  \<^verbatim>\<open>readSchemaDocuments\<close>, the loop over the entries takes the recursive call as the
  parameter \<open>rec\<close>, and \<open>emptyDirectory n\<close> may descend \<open>n\<close> levels.
\<close>

fun emptyFiles ::
  "(string \<Rightarrow> filesystem \<Rightarrow> ((error + unit) \<times> filesystem) option) \<Rightarrow> string \<Rightarrow> string list
     \<Rightarrow> filesystem \<Rightarrow> ((error + unit) \<times> filesystem) option" where
  "emptyFiles rec directory [] fs = Some (Inr (), fs)"
| "emptyFiles rec directory (file # files) fs =
     (let resourcePath = path_join directory file in
      case lstatSync fs resourcePath of
        Inl e \<Rightarrow> Some (Inl e, fs)
      | Inr Dir \<Rightarrow>
          (case rec resourcePath fs of
             None \<Rightarrow> None
           | Some (Inl e, fs') \<Rightarrow> Some (Inl e, fs')
           | Some (Inr _, fs') \<Rightarrow> emptyFiles rec directory files fs')
      | Inr (File _) \<Rightarrow>
          (case unlinkSync resourcePath fs of
             (Inl e, fs') \<Rightarrow> Some (Inl e, fs')
           | (Inr _, fs') \<Rightarrow> emptyFiles rec directory files fs'))"

definition emptyDirectory_body ::
  "(string \<Rightarrow> filesystem \<Rightarrow> ((error + unit) \<times> filesystem) option) \<Rightarrow> string \<Rightarrow> filesystem
     \<Rightarrow> ((error + unit) \<times> filesystem) option" where
  "emptyDirectory_body rec directory fs =
     (case readdirSync fs directory of
        Inl e \<Rightarrow> Some (Inl e, fs)
      | Inr files \<Rightarrow> emptyFiles rec directory files fs)"

fun emptyDirectory ::
  "nat \<Rightarrow> string \<Rightarrow> filesystem \<Rightarrow> ((error + unit) \<times> filesystem) option" where
  "emptyDirectory 0 = emptyDirectory_body (\<lambda>_ _. None)"
| "emptyDirectory (Suc n) = emptyDirectory_body (emptyDirectory n)"

text \<open>Sequencing of statements that may throw, and \<^verbatim>\<open>for (const x of xs)\<close>.\<close>

definition seq ::
  "(filesystem \<Rightarrow> (error + 'a) \<times> filesystem) \<Rightarrow> ('a \<Rightarrow> filesystem \<Rightarrow> (error + 'b) \<times> filesystem)
     \<Rightarrow> filesystem \<Rightarrow> (error + 'b) \<times> filesystem" where
  "seq m f fs = (case m fs of (Inl e, fs') \<Rightarrow> (Inl e, fs') | (Inr a, fs') \<Rightarrow> f a fs')"

fun for_each ::
  "('a \<Rightarrow> filesystem \<Rightarrow> (error + unit) \<times> filesystem) \<Rightarrow> 'a list \<Rightarrow> filesystem
     \<Rightarrow> (error + unit) \<times> filesystem" where
  "for_each body [] fs = (Inr (), fs)"
| "for_each body (x # xs) fs =
     (case body x fs of (Inl e, fs') \<Rightarrow> (Inl e, fs') | (Inr _, fs') \<Rightarrow> for_each body xs fs')"

text \<open>\<^verbatim>\<open>if (!fs.existsSync(p)) { fs.mkdirSync(p); }\<close>\<close>

definition ensure_directory :: "string \<Rightarrow> filesystem \<Rightarrow> (error + unit) \<times> filesystem" where
  "ensure_directory p fs = (if \<not> existsSync fs p then mkdirSync p fs else (Inr (), fs))"

text \<open>
  The body of the loop over the stack names. \<^verbatim>\<open>JSON.stringify(value, null, 4)\<close> is
  the parameter \<open>stringify\<close>. A stack of a deployment is a template, never a string,
  so \<^verbatim>\<open>typeof stackString === 'string'\<close> is false and the template is serialised.
\<close>

definition writeStack ::
  "(template \<Rightarrow> string) \<Rightarrow> deployment \<Rightarrow> string \<Rightarrow> string \<Rightarrow> filesystem
     \<Rightarrow> (error + unit) \<times> filesystem" where
  "writeStack stringify d stackRootPath stackFileName fs =
     (let parts = split_where (\<lambda>c. c = CHR ''.'') stackFileName;
          fileNameParts = (if length parts = 1 then parts @ [''json''] else parts);
          fullFileName = join ''.'' fileNameParts
      in case throwIfNotJSON fullFileName of
           Inl e \<Rightarrow> (Inl e, fs)
         | Inr _ \<Rightarrow>
             (case map_of (stacks d) stackFileName of
                None \<Rightarrow> (Inl (TypeError ''The data argument must be a string or a buffer''), fs)
              | Some stack \<Rightarrow>
                  writeFileSync (path_join stackRootPath fullFileName) (stringify stack) fs))"

definition writeResolver ::
  "deployment \<Rightarrow> string \<Rightarrow> string \<Rightarrow> filesystem \<Rightarrow> (error + unit) \<times> filesystem" where
  "writeResolver d resolverRootPath resolverFileName fs =
     (case map_of (resolvers d) resolverFileName of
        None \<Rightarrow> (Inl (TypeError ''The data argument must be a string or a buffer''), fs)
      | Some content \<Rightarrow> writeFileSync (path_join resolverRootPath resolverFileName) content fs)"

definition writeFunction ::
  "deployment \<Rightarrow> string \<Rightarrow> string \<Rightarrow> filesystem \<Rightarrow> (error + unit) \<times> filesystem" where
  "writeFunction d functionRootPath functionName fs =
     (case map_of (functions' d) functionName of
        None \<Rightarrow> (Inl (TypeError ''The path argument must be a string or a buffer''), fs)
      | Some artifact \<Rightarrow>
          (case readFileSync fs artifact of
             Inl e \<Rightarrow> (Inl e, fs)
           | Inr zipContents \<Rightarrow>
               writeFileSync (path_join functionRootPath functionName) zipContents fs))"

text \<open>
  \<^verbatim>\<open>writeDeploymentToDisk(deployment, directory, rootStackFileName)\<close>: the result
  is the value the body returns or the error it throws, with the file system it leaves
  behind. The function is declared \<^verbatim>\<open>async\<close> and awaits nothing: a call runs the
  whole body and returns a promise that is resolved or rejected accordingly.
\<close>

definition writeDeploymentToDisk ::
  "(template \<Rightarrow> string) \<Rightarrow> nat \<Rightarrow> deployment \<Rightarrow> string \<Rightarrow> string \<Rightarrow> filesystem
     \<Rightarrow> ((error + unit) \<times> filesystem) option" where
  "writeDeploymentToDisk stringify fuel d directory rootStackFileName fs =
     (case emptyDirectory fuel directory fs of
        None \<Rightarrow> None
      | Some (Inl e, fs1) \<Rightarrow> Some (Inl e, fs1)
      | Some (Inr _, fs1) \<Rightarrow>
          Some
           (seq (writeFileSync (path_join directory ''schema.graphql'') (schema d)) (\<lambda>_.
            seq (ensure_directory (path_join directory ''resolvers'')) (\<lambda>_.
            seq (for_each (writeResolver d (path_join directory ''resolvers''))
                   (keys (resolvers d))) (\<lambda>_.
            seq (ensure_directory (path_join directory ''stacks'')) (\<lambda>_.
            seq (for_each (writeStack stringify d (path_join directory ''stacks''))
                   (keys (stacks d))) (\<lambda>_.
            seq (ensure_directory (path_join directory ''functions'')) (\<lambda>_.
            seq (for_each (writeFunction d (path_join directory ''functions''))
                   (keys (functions' d))) (\<lambda>_.
            writeFileSync (path_join directory rootStackFileName)
              (stringify (rootStack d))))))))) fs1))"

section \<open>BuildOrchestrator\<close>

text \<open>
  \<^verbatim>\<open>opts.transform.transform\<close> is the transform engine: a function from the schema
  text to the deployment it generates or the error it throws.
\<close>

record ProjectOptions =
  projectDirectory :: string
  transform :: "string \<Rightarrow> error + deployment"
  rootStackFileName :: "string option"

text \<open>
  \<^verbatim>\<open>buildProject(opts)\<close>. The loader is awaited, the transform and the merge are
  synchronous calls: an error of any of them rejects the promise of
  \<^verbatim>\<open>buildProject\<close>. The promise returned by \<^verbatim>\<open>writeDeploymentToDisk\<close> is neither
  awaited nor returned: \<^verbatim>\<open>buildProject\<close> resolves whatever that promise holds.
\<close>

definition buildProject ::
  "resource_constants \<Rightarrow> (string \<Rightarrow> template option) \<Rightarrow> (template \<Rightarrow> string) \<Rightarrow> nat
     \<Rightarrow> ProjectOptions \<Rightarrow> filesystem \<Rightarrow> ((error + unit) \<times> filesystem) option" where
  "buildProject rc parse stringify fuel opts fs =
     (case readProjectConfiguration parse fuel fs (projectDirectory opts) of
        None \<Rightarrow> None
      | Some (Inl e) \<Rightarrow> Some (Inl e, fs)
      | Some (Inr userProjectConfig) \<Rightarrow>
          (case user_schema userProjectConfig of
             None \<Rightarrow> Some (Inl (TypeError ''Cannot read property toString of undefined''), fs)
           | Some schemaText \<Rightarrow>
               (case transform opts schemaText of
                  Inl e \<Rightarrow> Some (Inl e, fs)
                | Inr transformOutput \<Rightarrow>
                    (case fst (mergeUserConfigWithTransformOutput rc userProjectConfig
                                 transformOutput) of
                       Inl e \<Rightarrow> Some (Inl e, fs)
                     | Inr merged \<Rightarrow>
                         (case writeDeploymentToDisk stringify fuel merged
                                 (path_join (projectDirectory opts) ''build'')
                                 (case rootStackFileName opts of
                                    Some name \<Rightarrow> name | None \<Rightarrow> ''rootStack.json'') fs of
                            None \<Rightarrow> None
                          | Some (_, fs') \<Rightarrow> Some (Inr (), fs'))))))"

section \<open>Example project\<close>

text \<open>
  A stand-in for \<^verbatim>\<open>JSON.parse\<close> that knows two texts, a stand-in for
  \<^verbatim>\<open>JSON.stringify\<close>, a transform engine that returns the example deployment, and
  project directories on disk.
\<close>

definition example_parse :: "string \<Rightarrow> template option" where
  "example_parse text =
     (if text = ''{}'' then Some \<lparr>Parameters = None, Resources = []\<rparr>
      else if text = ''{ Parameters: {} }'' then Some \<lparr>Parameters = Some [], Resources = []\<rparr>
      else None)"

definition example_stringify :: "template \<Rightarrow> string" where
  "example_stringify t = ''{...}''"

definition example_options :: ProjectOptions where
  "example_options =
     \<lparr>projectDirectory = ''proj'',
      transform = (\<lambda>schemaText. Inr example_transform),
      rootStackFileName = None\<rparr>"

definition project_without_build :: filesystem where
  "project_without_build =
     [(''proj'', Dir),
      (''proj/schema.graphql'', File ''type Post { id: ID! }'')]"

definition project_with_build :: filesystem where
  "project_with_build =
     [(''proj'', Dir),
      (''proj/schema.graphql'', File ''type Post { id: ID! }''),
      (''proj/resolvers'', Dir),
      (''proj/resolvers/Query.getPost.req.vtl'', File ''custom''),
      (''proj/stacks'', Dir),
      (''proj/stacks/custom.json'', File ''{ Parameters: {} }''),
      (''proj/build'', Dir),
      (''proj/build/stale.txt'', File ''old''),
      (''proj/build/stacks'', Dir),
      (''proj/build/stacks/Old.json'', File ''old'')]"

definition project_with_yaml :: filesystem where
  "project_with_yaml =
     [(''proj'', Dir),
      (''proj/schema.graphql'', File ''type Post { id: ID! }''),
      (''proj/stacks'', Dir),
      (''proj/stacks/custom.json'', File ''{}''),
      (''proj/stacks/legacy.yaml'', File ''Resources: {}''),
      (''proj/stacks/notes.txt'', File ''to do'')]"

definition project_with_text :: filesystem where
  "project_with_text =
     [(''proj'', Dir),
      (''proj/schema.graphql'', File ''type Post { id: ID! }''),
      (''proj/stacks'', Dir),
      (''proj/stacks/custom.json'', File ''{}''),
      (''proj/stacks/notes.txt'', File ''to do'')]"

definition project_text_then_yaml :: filesystem where
  "project_text_then_yaml =
     [(''proj'', Dir),
      (''proj/schema.graphql'', File ''type Post { id: ID! }''),
      (''proj/stacks'', Dir),
      (''proj/stacks/a.txt'', File ''to do''),
      (''proj/stacks/b.yaml'', File ''Resources: {}'')]"

definition project_second_malformed :: filesystem where
  "project_second_malformed =
     [(''proj'', Dir),
      (''proj/schema.graphql'', File ''type Post { id: ID! }''),
      (''proj/stacks'', Dir),
      (''proj/stacks/a.json'', File ''{}''),
      (''proj/stacks/b.json'', File ''{ broken'')]"

definition project_first_malformed :: filesystem where
  "project_first_malformed =
     [(''proj'', Dir),
      (''proj/schema.graphql'', File ''type Post { id: ID! }''),
      (''proj/stacks'', Dir),
      (''proj/stacks/a.json'', File ''{ broken''),
      (''proj/stacks/b.json'', File ''{}'')]"

section \<open>Theorems\<close>

subsection \<open>Uploader\<close>

lemma uploadFile_success:
  "call_upload upload (key, body) w = (Inr loc, w1) \<Longrightarrow>
   uploadFile upload key body backoffMS numTries w = (Inr loc, w1)"
  by (subst uploadFile.simps) simp

lemma uploadFile_last_failure:
  "call_upload upload (key, body) w = (Inl e, w1) \<Longrightarrow> \<not> numTries > 1 \<Longrightarrow>
   uploadFile upload key body backoffMS numTries w = (Inl e, w1)"
  by (subst uploadFile.simps) simp

lemma uploadFile_retry_fails:
  "call_upload upload (key, body) w = (Inl e, w1) \<Longrightarrow> numTries > 1 \<Longrightarrow>
   uploadFile upload key body (backoffMS * 2) (numTries - 1) (setTimeout backoffMS w1)
     = (Inl e', w2) \<Longrightarrow>
   uploadFile upload key body backoffMS numTries w = (Inl e', w2)"
  by (subst uploadFile.simps) simp

lemma uploadFile_retry_succeeds:
  "call_upload upload (key, body) w = (Inl e, w1) \<Longrightarrow> numTries > 1 \<Longrightarrow>
   uploadFile upload key body (backoffMS * 2) (numTries - 1) (setTimeout backoffMS w1)
     = (Inr loc, w2) \<Longrightarrow>
   uploadFile upload key body backoffMS numTries w = (Inl e, w2)"
  by (subst uploadFile.simps) simp

text \<open>
  C1 (the code departs from the claim). The stub rejects on its first four invocations
  and resolves on the fifth. \<^verbatim>\<open>uploadFile\<close> invokes it five times and waits 1000,
  2000, 4000 and 8000 between the attempts, as claimed, but the call does not succeed:
  the fourth attempt's \<^verbatim>\<open>catch\<close> block awaits the successful fifth attempt and then
  reaches \<^verbatim>\<open>throw e\<close>, so the caller receives the fourth attempt's error.
\<close>

theorem uploadFile_retry_success_is_rethrown:
  "uploadFile_default (scripted (fails_first 4)) ''key'' ''body'' (initial_world 0) =
     (Inl 3, \<lparr>transport = 5, events =
        [Upload (''key'', ''body'') (Inl 0), Timeout 1000,
         Upload (''key'', ''body'') (Inl 1), Timeout 2000,
         Upload (''key'', ''body'') (Inl 2), Timeout 4000,
         Upload (''key'', ''body'') (Inl 3), Timeout 8000,
         Upload (''key'', ''body'') (Inr ''https://bucket/key'')]\<rparr>)"
  by (simp add: uploadFile_default_def uploadFile.simps call_upload_def setTimeout_def
        scripted_def fails_first_def initial_world_def)

lemma always_fails_step:
  assumes "\<And>s b. isl (fst (upload s b))"
  obtains e s' where "upload s b = (Inl e, s')"
  using assms[of s b] by (cases "upload s b"; cases "fst (upload s b)") auto

text \<open>
  C4. If the upload function rejects on every invocation, the per-file upload with the
  default budget invokes it exactly five times (waiting 1000, 2000, 4000, 8000 in
  between) and then fails; the error the caller receives is the very error value the
  upload function raised (at its fifth, last invocation), not a wrapper around it.
\<close>

theorem uploadFile_exhaustion:
  assumes fails: "\<And>s b. isl (fst (upload s b))"
  shows "\<exists>e1 e2 e3 e4 e5 s'.
    uploadFile_default upload key body (initial_world s) =
      (Inl e5, \<lparr>transport = s', events =
         [Upload (key, body) (Inl e1), Timeout 1000,
          Upload (key, body) (Inl e2), Timeout 2000,
          Upload (key, body) (Inl e3), Timeout 4000,
          Upload (key, body) (Inl e4), Timeout 8000,
          Upload (key, body) (Inl e5)]\<rparr>)"
proof -
  obtain e1 s1 where 1: "upload s (key, body) = (Inl e1, s1)"
    using fails by (rule always_fails_step)
  obtain e2 s2 where 2: "upload s1 (key, body) = (Inl e2, s2)"
    using fails by (rule always_fails_step)
  obtain e3 s3 where 3: "upload s2 (key, body) = (Inl e3, s3)"
    using fails by (rule always_fails_step)
  obtain e4 s4 where 4: "upload s3 (key, body) = (Inl e4, s4)"
    using fails by (rule always_fails_step)
  obtain e5 s5 where 5: "upload s4 (key, body) = (Inl e5, s5)"
    using fails by (rule always_fails_step)
  show ?thesis
    using 1 2 3 4 5
    by (simp add: uploadFile_default_def uploadFile.simps call_upload_def setTimeout_def
        initial_world_def)
qed

theorem uploadFile_exhaustion_witness:
  "(\<forall>s b. isl (fst (scripted always_fails s b))) \<and>
   (\<exists>e1 e2 e3 e4 e5 s'.
      uploadFile_default (scripted always_fails) ''key'' ''body'' (initial_world 0) =
        (Inl e5, \<lparr>transport = s', events =
           [Upload (''key'', ''body'') (Inl e1), Timeout 1000,
            Upload (''key'', ''body'') (Inl e2), Timeout 2000,
            Upload (''key'', ''body'') (Inl e3), Timeout 4000,
            Upload (''key'', ''body'') (Inl e4), Timeout 8000,
            Upload (''key'', ''body'') (Inl e5)]\<rparr>))"
proof -
  have h: "\<And>s b. isl (fst (scripted always_fails s b))"
    by (simp add: scripted_def always_fails_def)
  show ?thesis
    using h uploadFile_exhaustion [of "scripted always_fails" "''key''" "''body''" 0, OF h]
    by simp
qed

subsection \<open>Merger\<close>

lemma map_of_foldl_update:
  "map_of (foldl (\<lambda>acc k. AList.update k (f k) acc) init ks) x =
     (if x \<in> set ks then Some (f x) else map_of init x)"
  by (induction ks arbitrary: init) (auto simp: update_conv')

lemma keys_foldl_update:
  "set (keys (foldl (\<lambda>acc k. AList.update k (f k) acc) init ks)) = set (keys init) \<union> set ks"
  by (induction ks arbitrary: init) (auto simp: keys_def dom_update)

lemma distinct_foldl_update:
  "distinct (map fst init) \<Longrightarrow>
   distinct (keys (foldl (\<lambda>acc k. AList.update k (f k) acc) init ks))"
  by (induction ks arbitrary: init) (auto simp: keys_def distinct_update)

lemma customStackParams_lookup:
  "get (customStackParams rc ks) k =
     (if k = AppSyncApiId rc then GetAtt (GraphQLAPILogicalID rc) ''ApiId''
      else if k \<in> set ks then Ref k
      else if k \<in> set object_prototype_members then Inherited k
      else Undefined)"
  by (simp add: get_def customStackParams_def update_conv' map_of_foldl_update)

lemma mergeStacks_root_parameters:
  "mergeStacks rc ids params us ks t = (r, t') \<Longrightarrow>
   Parameters (rootStack t') = Parameters (rootStack t)"
  by (induction ks arbitrary: t) (auto split: if_splits option.splits simp: Let_def)

lemma mergeStacks_stacks_grow:
  "mergeStacks rc ids params us ks t = (r, t') \<Longrightarrow> map_of (stacks t) k \<noteq> None \<Longrightarrow>
   map_of (stacks t') k \<noteq> None"
  by (induction ks arbitrary: t) (auto split: if_splits option.splits simp: Let_def update_conv')

lemma mergeStacks_stacks_added:
  "mergeStacks rc ids params us ks t = (Inr (), t') \<Longrightarrow> k \<in> set ks \<Longrightarrow>
   map_of (stacks t') k \<noteq> None"
proof (induction ks arbitrary: t)
  case Nil
  then show ?case by simp
next
  case (Cons a ks)
  from Cons.prems(1) obtain ua da where
    a: "map_of (stacks t) a = None" "a \<notin> set object_prototype_members"
       "map_of us a = Some ua" "Parameters ua = Some da"
    by (auto split: if_splits option.splits)
  let ?t2 = "t\<lparr>stacks := AList.update a ua (stacks t),
               rootStack := (rootStack t)\<lparr>Resources :=
                 AList.update (stackResourceId a)
                   (customNestedStack rc ids (parametersForStack params da) a)
                   (Resources (rootStack t))\<rparr>\<rparr>"
  have step: "mergeStacks rc ids params us ks ?t2 = (Inr (), t')"
    using Cons.prems(1) a by (simp add: Let_def)
  show ?case
  proof (cases "k \<in> set ks")
    case True
    then show ?thesis using Cons.IH[OF step] by blast
  next
    case False
    then have "k = a" using Cons.prems(2) by simp
    then have "map_of (stacks ?t2) k \<noteq> None" by (simp add: update_conv')
    then show ?thesis by (rule mergeStacks_stacks_grow[OF step])
  qed
qed

lemma mergeStacks_synth_preserved:
  assumes "mergeStacks rc ids params us ks t = (Inr (), t')"
    and "\<exists>n' u' declared. map_of us n' = Some u' \<and> Parameters u' = Some declared \<and>
           stackResourceId n' = x \<and>
           map_of (Resources (rootStack t)) x =
             Some (customNestedStack rc ids (parametersForStack params declared) n')"
  shows "\<exists>n' u' declared. map_of us n' = Some u' \<and> Parameters u' = Some declared \<and>
           stackResourceId n' = x \<and>
           map_of (Resources (rootStack t')) x =
             Some (customNestedStack rc ids (parametersForStack params declared) n')"
  using assms
proof (induction ks arbitrary: t)
  case Nil
  then show ?case by simp
next
  case (Cons a ks)
  from Cons.prems(1) obtain ua da where
    a: "map_of (stacks t) a = None" "a \<notin> set object_prototype_members"
       "map_of us a = Some ua" "Parameters ua = Some da"
    by (auto split: if_splits option.splits)
  let ?t2 = "t\<lparr>stacks := AList.update a ua (stacks t),
               rootStack := (rootStack t)\<lparr>Resources :=
                 AList.update (stackResourceId a)
                   (customNestedStack rc ids (parametersForStack params da) a)
                   (Resources (rootStack t))\<rparr>\<rparr>"
  have step: "mergeStacks rc ids params us ks ?t2 = (Inr (), t')"
    using Cons.prems(1) a by (simp add: Let_def)
  have "\<exists>n' u' declared. map_of us n' = Some u' \<and> Parameters u' = Some declared \<and>
           stackResourceId n' = x \<and>
           map_of (Resources (rootStack ?t2)) x =
             Some (customNestedStack rc ids (parametersForStack params declared) n')"
  proof (cases "stackResourceId a = x")
    case True
    then show ?thesis using a by (auto simp: update_conv')
  next
    case False
    then show ?thesis using Cons.prems(2) by (auto simp: update_conv')
  qed
  with Cons.IH[OF step] show ?case by blast
qed

lemma mergeStacks_synth_established:
  assumes "mergeStacks rc ids params us ks t = (Inr (), t')" and "n \<in> set ks"
  shows "\<exists>n' u' declared. map_of us n' = Some u' \<and> Parameters u' = Some declared \<and>
           stackResourceId n' = stackResourceId n \<and>
           map_of (Resources (rootStack t')) (stackResourceId n) =
             Some (customNestedStack rc ids (parametersForStack params declared) n')"
  using assms
proof (induction ks arbitrary: t)
  case Nil
  then show ?case by simp
next
  case (Cons a ks)
  from Cons.prems(1) obtain ua da where
    a: "map_of (stacks t) a = None" "a \<notin> set object_prototype_members"
       "map_of us a = Some ua" "Parameters ua = Some da"
    by (auto split: if_splits option.splits)
  let ?t2 = "t\<lparr>stacks := AList.update a ua (stacks t),
               rootStack := (rootStack t)\<lparr>Resources :=
                 AList.update (stackResourceId a)
                   (customNestedStack rc ids (parametersForStack params da) a)
                   (Resources (rootStack t))\<rparr>\<rparr>"
  have step: "mergeStacks rc ids params us ks ?t2 = (Inr (), t')"
    using Cons.prems(1) a by (simp add: Let_def)
  show ?case
  proof (cases "n \<in> set ks")
    case True
    then show ?thesis using Cons.IH[OF step] by blast
  next
    case False
    then have "n = a" using Cons.prems(2) by simp
    have "\<exists>n' u' declared. map_of us n' = Some u' \<and> Parameters u' = Some declared \<and>
           stackResourceId n' = stackResourceId n \<and>
           map_of (Resources (rootStack ?t2)) (stackResourceId n) =
             Some (customNestedStack rc ids (parametersForStack params declared) n')"
      using a \<open>n = a\<close> by (auto simp: update_conv')
    then show ?thesis by (rule mergeStacks_synth_preserved[OF step])
  qed
qed

lemma merge_success:
  assumes "fst (mergeUserConfigWithTransformOutput rc u t) = Inr m"
  obtains rootParameters where
    "Parameters (rootStack t) = Some rootParameters"
    "snd (mergeUserConfigWithTransformOutput rc u t) = m"
    "mergeStacks rc (allResourceIds (rootStack t)) (customStackParams rc (keys rootParameters))
       (case user_stacks u of Some s \<Rightarrow> s | None \<Rightarrow> [])
       (keys (case user_stacks u of Some s \<Rightarrow> s | None \<Rightarrow> []))
       (t\<lparr>resolvers := mergeResolvers (case user_resolvers u of Some r \<Rightarrow> r | None \<Rightarrow> [])
                          (resolvers t)\<rparr>) = (Inr (), m)"
  using assms
  by (auto simp: mergeUserConfigWithTransformOutput_def Let_def
        split: option.splits prod.splits sum.splits)



lemma example_merge_succeeds:
  "fst (mergeUserConfigWithTransformOutput example_constants example_user example_transform)
     = Inr (snd (mergeUserConfigWithTransformOutput example_constants example_user
                   example_transform))"
  by (simp add: mergeUserConfigWithTransformOutput_def example_user_def
        example_transform_def Let_def keys_def object_prototype_members_def)

lemma example_user_stacks:
  "user_stacks example_user =
     Some [(''custom.json'',
            \<lparr>Parameters = Some [(''env'', Obj []), (''AppSyncApiId'', Obj []),
                                (''Other'', Obj []), (''toString'', Obj [])],
             Resources = []\<rparr>)]"
  by (simp add: example_user_def)

lemma example_resource_id: "stackResourceId ''custom.json'' = ''customjson''"
  by (simp add: stackResourceId_def is_alpha_def)



lemma parametersForStack_keys:
  "set (keys (parametersForStack params declared)) = set (keys declared)"
  using keys_foldl_update[of "get params" "[]" "keys declared"]
  by (simp add: parametersForStack_def keys_def)

lemma parametersForStack_distinct:
  "distinct (keys (parametersForStack params declared))"
  using distinct_foldl_update[of "[]" "get params" "keys declared"]
  by (simp add: parametersForStack_def)

lemma parametersForStack_lookup:
  "k \<in> set (keys declared) \<Longrightarrow>
   map_of (parametersForStack params declared) k = Some (get params k)"
  by (simp add: parametersForStack_def map_of_foldl_update)

text \<open>
  C7. After a successful merge, the nested-stack resource found under a user stack's
  resource id was synthesized for a user stack \<open>n'\<close> with that resource id (the stack
  itself, unless another user stack has the same id), and its \<^verbatim>\<open>Parameters\<close> map has
  exactly the parameter names that user stack declares, each once. Each is mapped to its
  lookup \<^verbatim>\<open>customStackParams[k]\<close> in the object made of the root stack's parameters,
  each as a reference to itself, and of the synthesized API-id parameter. That lookup is
  the \<^verbatim>\<open>GetAtt\<close> of the API id for the API-id parameter and \<^verbatim>\<open>Ref k\<close> for a
  parameter \<open>k\<close> of the root stack; for any other name it finds no parameter, and
  what the read returns is the inherited member when the name is one of
  \<^verbatim>\<open>Object.prototype\<close> and \<^verbatim>\<open>undefined\<close> otherwise. Names the user stack does not
  declare are not keys of the map.
\<close>

theorem merge_nested_stack_parameters:
  assumes "fst (mergeUserConfigWithTransformOutput rc u t) = Inr m"
    and "user_stacks u = Some us"
    and "n \<in> set (keys us)"
  shows "\<exists>rootParameters n' u' declared pm r.
           Parameters (rootStack t) = Some rootParameters \<and>
           map_of us n' = Some u' \<and> Parameters u' = Some declared \<and>
           stackResourceId n' = stackResourceId n \<and>
           map_of (Resources (rootStack m)) (stackResourceId n) = Some r \<and>
           r = customNestedStack rc (allResourceIds (rootStack t)) pm n' \<and>
           map_of (Properties r) ''Parameters'' = Some (Obj pm) \<and>
           distinct (keys pm) \<and>
           set (keys pm) = set (keys declared) \<and>
           (\<forall>k\<in>set (keys declared).
              map_of pm k = Some (get (customStackParams rc (keys rootParameters)) k) \<and>
              get (customStackParams rc (keys rootParameters)) k =
                (if k = AppSyncApiId rc then GetAtt (GraphQLAPILogicalID rc) ''ApiId''
                 else if k \<in> set (keys rootParameters) then Ref k
                 else if k \<in> set object_prototype_members then Inherited k
                 else Undefined))"
  using assms(1)
proof (rule merge_success)
  fix rootParameters
  assume root: "Parameters (rootStack t) = Some rootParameters"
  assume run: "mergeStacks rc (allResourceIds (rootStack t))
            (customStackParams rc (keys rootParameters))
            (case user_stacks u of Some s \<Rightarrow> s | None \<Rightarrow> [])
            (keys (case user_stacks u of Some s \<Rightarrow> s | None \<Rightarrow> []))
            (t\<lparr>resolvers := mergeResolvers
                  (case user_resolvers u of Some r \<Rightarrow> r | None \<Rightarrow> []) (resolvers t)\<rparr>)
          = (Inr (), m)"
  from assms(2,3) have "n \<in> set (keys (case user_stacks u of Some s \<Rightarrow> s | None \<Rightarrow> []))"
    by simp
  from mergeStacks_synth_established[OF run this] assms(2)
  obtain n' u' declared where
    s: "map_of us n' = Some u'" "Parameters u' = Some declared"
       "stackResourceId n' = stackResourceId n"
       "map_of (Resources (rootStack m)) (stackResourceId n) =
          Some (customNestedStack rc (allResourceIds (rootStack t))
                  (parametersForStack (customStackParams rc (keys rootParameters)) declared) n')"
    by auto
  let ?pm = "parametersForStack (customStackParams rc (keys rootParameters)) declared"
  have "map_of (Properties (customNestedStack rc (allResourceIds (rootStack t)) ?pm n'))
          ''Parameters'' = Some (Obj ?pm)"
    by (simp add: customNestedStack_def)
  moreover have "\<forall>k\<in>set (keys declared).
              map_of ?pm k = Some (get (customStackParams rc (keys rootParameters)) k) \<and>
              get (customStackParams rc (keys rootParameters)) k =
                (if k = AppSyncApiId rc then GetAtt (GraphQLAPILogicalID rc) ''ApiId''
                 else if k \<in> set (keys rootParameters) then Ref k
                 else if k \<in> set object_prototype_members then Inherited k
                 else Undefined)"
    by (simp add: parametersForStack_lookup customStackParams_lookup)
  ultimately show ?thesis
    using root s parametersForStack_keys[of "customStackParams rc (keys rootParameters)" declared]
      parametersForStack_distinct[of "customStackParams rc (keys rootParameters)" declared]
    by blast
qed

theorem merge_nested_stack_parameters_witness:
  "fst (mergeUserConfigWithTransformOutput example_constants example_user example_transform)
     = Inr (snd (mergeUserConfigWithTransformOutput example_constants example_user
                   example_transform)) \<and>
   (\<exists>r pm. map_of (Resources (rootStack (snd (mergeUserConfigWithTransformOutput
               example_constants example_user example_transform)))) ''customjson'' = Some r \<and>
      map_of (Properties r) ''Parameters'' = Some (Obj pm) \<and>
      set (keys pm) = {''env'', ''AppSyncApiId'', ''Other'', ''toString''} \<and>
      map_of pm ''env'' = Some (Ref ''env'') \<and>
      map_of pm ''AppSyncApiId'' = Some (GetAtt ''GraphQLAPI'' ''ApiId'') \<and>
      map_of pm ''Other'' = Some Undefined \<and>
      map_of pm ''toString'' = Some (Inherited ''toString''))"
proof -
  let ?us = "[(''custom.json'',
            \<lparr>Parameters = Some [(''env'', Obj []), (''AppSyncApiId'', Obj []),
                                (''Other'', Obj []), (''toString'', Obj [])],
             Resources = []\<rparr>)]"
  have 3: "''custom.json'' \<in> set (keys ?us)"
    by (simp add: keys_def)
  have 5: "Parameters (rootStack example_transform) = Some rp \<Longrightarrow> keys rp = [''env'']" for rp
    by (auto simp: example_transform_def keys_def)
  from merge_nested_stack_parameters[OF example_merge_succeeds example_user_stacks 3]
  obtain rp n' u' declared pm r where
    w: "Parameters (rootStack example_transform) = Some rp"
       "map_of ?us n' = Some u'"
       "Parameters u' = Some declared"
       "map_of (Resources (rootStack (snd (mergeUserConfigWithTransformOutput
               example_constants example_user example_transform)))) ''customjson'' = Some r"
       "map_of (Properties r) ''Parameters'' = Some (Obj pm)"
       "set (keys pm) = set (keys declared)"
       "\<forall>k\<in>set (keys declared).
              map_of pm k = Some (get (customStackParams example_constants (keys rp)) k) \<and>
              get (customStackParams example_constants (keys rp)) k =
                (if k = AppSyncApiId example_constants
                 then GetAtt (GraphQLAPILogicalID example_constants) ''ApiId''
                 else if k \<in> set (keys rp) then Ref k
                 else if k \<in> set object_prototype_members then Inherited k
                 else Undefined)"
    unfolding example_resource_id by blast
  from w(2,3) have d: "declared = [(''env'', Obj []), (''AppSyncApiId'', Obj []),
                                (''Other'', Obj []), (''toString'', Obj [])]"
    by (auto split: if_splits)
  have kd: "keys declared = [''env'', ''AppSyncApiId'', ''Other'', ''toString'']"
    by (simp add: d keys_def)
  have "set (keys pm) = {''env'', ''AppSyncApiId'', ''Other'', ''toString''}"
    using w(6) by (simp add: kd)
  moreover have "map_of pm ''env'' = Some (Ref ''env'')"
    "map_of pm ''AppSyncApiId'' = Some (GetAtt ''GraphQLAPI'' ''ApiId'')"
    "map_of pm ''Other'' = Some Undefined"
    "map_of pm ''toString'' = Some (Inherited ''toString'')"
    using w(7) 5[OF w(1)]
    by (simp_all add: kd example_constants_def object_prototype_members_def)
  ultimately show ?thesis using example_merge_succeeds w(4,5) by blast
qed

lemma mergeStacks_reaches_collision:
  assumes "map_of (stacks t) n \<noteq> None"
    and "distinct pre"
    and "\<forall>k\<in>set pre. map_of (stacks t) k = None \<and> k \<notin> set object_prototype_members \<and>
           (\<exists>s d. map_of us k = Some s \<and> Parameters s = Some d)"
  shows "fst (mergeStacks rc ids params us (pre @ n # post) t)
           = Inl (Error (duplicate_stack_message n))"
  using assms
proof (induction pre arbitrary: t)
  case Nil
  then show ?case by simp
next
  case (Cons a pre)
  from Cons.prems(3) obtain s d where
    a: "map_of (stacks t) a = None" "a \<notin> set object_prototype_members"
       "map_of us a = Some s" "Parameters s = Some d"
    by auto
  let ?t2 = "t\<lparr>stacks := AList.update a s (stacks t),
               rootStack := (rootStack t)\<lparr>Resources :=
                 AList.update (stackResourceId a)
                   (customNestedStack rc ids (parametersForStack params d) a)
                   (Resources (rootStack t))\<rparr>\<rparr>"
  have 1: "map_of (stacks ?t2) n \<noteq> None"
    using Cons.prems(1) by (simp add: update_conv')
  have 2: "distinct pre" using Cons.prems(2) by simp
  have 3: "\<forall>k\<in>set pre. map_of (stacks ?t2) k = None \<and> k \<notin> set object_prototype_members \<and>
           (\<exists>s d. map_of us k = Some s \<and> Parameters s = Some d)"
    using Cons.prems(2,3) by (auto simp: update_conv')
  have "mergeStacks rc ids params us ((a # pre) @ n # post) t =
        mergeStacks rc ids params us (pre @ n # post) ?t2"
    using a by (simp add: Let_def)
  with Cons.IH[OF 1 2 3] show ?case by simp
qed

text \<open>
  C6 (amended). The loop over the user stacks stops at the first stack it cannot
  process. When it reaches a user stack \<open>n\<close> whose name is a stack name of the
  transform output, the merge throws the error whose message is built around \<open>n\<close>,
  and returns no bundle. The loop reaches \<open>n\<close> when the root stack has parameters and
  every user stack before \<open>n\<close> is accepted: its name is not a stack name of the
  transform output (nor the name of an inherited member), and it declares parameters.
\<close>

theorem merge_rejects_duplicate_stack:
  assumes "Parameters (rootStack t) \<noteq> None"
    and "user_stacks u = Some us"
    and "distinct (keys us)"
    and "keys us = pre @ n # post"
    and "map_of (stacks t) n \<noteq> None"
    and "\<forall>k\<in>set pre. map_of (stacks t) k = None \<and> k \<notin> set object_prototype_members \<and>
           (\<forall>s. map_of us k = Some s \<longrightarrow> Parameters s \<noteq> None)"
  shows "fst (mergeUserConfigWithTransformOutput rc u t)
           = Inl (Error (duplicate_stack_message n)) \<and>
         sublist n (duplicate_stack_message n)"
proof -
  have pre: "\<forall>k\<in>set pre. map_of (stacks t) k = None \<and> k \<notin> set object_prototype_members \<and>
           (\<exists>s d. map_of us k = Some s \<and> Parameters s = Some d)"
  proof
    fix k assume k: "k \<in> set pre"
    then have "k \<in> set (keys us)" using assms(4) by simp
    then have "k \<in> fst ` set us" by (simp add: keys_def)
    then obtain s where "map_of us k = Some s"
      by (metis map_of_eq_None_iff not_Some_eq)
    with assms(6) k show "map_of (stacks t) k = None \<and> k \<notin> set object_prototype_members \<and>
           (\<exists>s d. map_of us k = Some s \<and> Parameters s = Some d)"
      by auto
  qed
  have d: "distinct pre" using assms(3,4) by simp
  from assms(1) obtain rootParameters where
    root: "Parameters (rootStack t) = Some rootParameters" by auto
  let ?t0 = "t\<lparr>resolvers := mergeResolvers
                  (case user_resolvers u of Some r \<Rightarrow> r | None \<Rightarrow> []) (resolvers t)\<rparr>"
  have "fst (mergeStacks rc (allResourceIds (rootStack ?t0))
               (customStackParams rc (keys rootParameters)) us (pre @ n # post) ?t0)
          = Inl (Error (duplicate_stack_message n))"
    using assms(5) d pre by (intro mergeStacks_reaches_collision) simp_all
  then have "fst (mergeUserConfigWithTransformOutput rc u t)
           = Inl (Error (duplicate_stack_message n))"
    using root assms(2,4)
    by (auto simp: mergeUserConfigWithTransformOutput_def Let_def split: prod.splits sum.splits)
  moreover have "sublist n (duplicate_stack_message n)"
    unfolding duplicate_stack_message_def
    by (rule sublist_appendI)
  ultimately show ?thesis by simp
qed

lemma example_colliding_stacks:
  "user_stacks example_user_colliding =
     Some [(''custom.json'', \<lparr>Parameters = Some [], Resources = []\<rparr>),
           (''Post.json'', \<lparr>Parameters = Some [], Resources = []\<rparr>)]"
  by (simp add: example_user_colliding_def)

theorem merge_rejects_duplicate_stack_witness:
  "Parameters (rootStack example_transform) \<noteq> None \<and>
   map_of (stacks example_transform) ''Post.json'' \<noteq> None \<and>
   map_of (stacks example_transform) ''custom.json'' = None \<and>
   fst (mergeUserConfigWithTransformOutput example_constants example_user_colliding
          example_transform)
     = Inl (Error (''You cannot provide a stack named Post.json as it '' @
                   ''            will be overwritten by a stack generated by the GraphQL Transform.''))"
proof -
  let ?us = "[(''custom.json'', \<lparr>Parameters = Some [], Resources = []\<rparr>),
              (''Post.json'', \<lparr>Parameters = Some [], Resources = []\<rparr>)]"
  have 1: "Parameters (rootStack example_transform) \<noteq> None"
    by (simp add: example_transform_def)
  have 3: "distinct (keys ?us)" by (simp add: keys_def)
  have 4: "keys ?us = [''custom.json''] @ ''Post.json'' # []" by (simp add: keys_def)
  have 5: "map_of (stacks example_transform) ''Post.json'' \<noteq> None"
    by (simp add: example_transform_def)
  have 6: "\<forall>k\<in>set [''custom.json'']. map_of (stacks example_transform) k = None \<and>
           k \<notin> set object_prototype_members \<and>
           (\<forall>s. map_of ?us k = Some s \<longrightarrow> Parameters s \<noteq> None)"
    by (simp add: example_transform_def object_prototype_members_def)
  from merge_rejects_duplicate_stack[OF 1 example_colliding_stacks 3 4 5 6,
      of example_constants] 1 5 6
  show ?thesis by (simp add: duplicate_stack_message_def)
qed

text \<open>
  C6 as stated fails on three inputs in which a user stack \<^verbatim>\<open>Post.json\<close> collides
  with a stack of the transform output. When the root stack has no parameters, or when
  a user stack before the colliding one declares none, the merge throws a
  \<^verbatim>\<open>TypeError\<close> instead. When a second user stack \<^verbatim>\<open>Comment.json\<close> collides as
  well, the error is the one for \<^verbatim>\<open>Post.json\<close>, and its message does not name
  \<^verbatim>\<open>Comment.json\<close>.
\<close>

theorem merge_duplicate_stack_not_reported:
  "map_of (stacks example_transform_no_parameters) ''Post.json'' \<noteq> None \<and>
   fst (mergeUserConfigWithTransformOutput example_constants example_user_colliding
          example_transform_no_parameters)
     = Inl (TypeError ''Cannot convert undefined or null to object'') \<and>
   map_of (stacks example_transform) ''Post.json'' \<noteq> None \<and>
   fst (mergeUserConfigWithTransformOutput example_constants example_user_masked
          example_transform)
     = Inl (TypeError ''Cannot convert undefined or null to object'') \<and>
   map_of (stacks example_transform_two_stacks) ''Comment.json'' \<noteq> None \<and>
   fst (mergeUserConfigWithTransformOutput example_constants example_user_two_collisions
          example_transform_two_stacks)
     = Inl (Error (duplicate_stack_message ''Post.json'')) \<and>
   \<not> sublist ''Comment.json'' (duplicate_stack_message ''Post.json'')"
proof -
  have a: "fst (mergeUserConfigWithTransformOutput example_constants example_user_colliding
          example_transform_no_parameters)
     = Inl (TypeError ''Cannot convert undefined or null to object'')"
    by (simp add: mergeUserConfigWithTransformOutput_def example_transform_no_parameters_def
          example_transform_def Let_def undefined_to_object_def)
  have b: "fst (mergeUserConfigWithTransformOutput example_constants example_user_masked
          example_transform)
     = Inl (TypeError ''Cannot convert undefined or null to object'')"
    by (simp add: mergeUserConfigWithTransformOutput_def example_user_masked_def
          example_transform_def Let_def keys_def object_prototype_members_def
          undefined_to_object_def)
  have c: "fst (mergeUserConfigWithTransformOutput example_constants
             example_user_two_collisions example_transform_two_stacks)
     = Inl (Error (duplicate_stack_message ''Post.json''))"
    by (simp add: mergeUserConfigWithTransformOutput_def example_user_two_collisions_def
          example_transform_two_stacks_def example_transform_def Let_def keys_def)
  have d: "\<not> sublist ''Comment.json'' (duplicate_stack_message ''Post.json'')"
    by (simp add: duplicate_stack_message_def sublist_Cons_right prefix_Cons)
  show ?thesis
    using a b c d
    by (simp add: example_transform_no_parameters_def example_transform_two_stacks_def
          example_transform_def)
qed

lemma mergeStacks_in_store_simulates:
  "mergeStacks_in_store rc ids params us ks b h = (r, h') \<Longrightarrow>
     mergeStacks rc ids params us ks (contents h b) = (r, contents h' b) \<and>
     resolver_objects h' = resolver_objects h \<and>
     (\<forall>a. a \<noteq> bundle_stacks b \<longrightarrow> stack_objects h' a = stack_objects h a) \<and>
     (\<forall>a. a \<noteq> bundle_rootResources b \<longrightarrow> resource_objects h' a = resource_objects h a)"
proof (induction ks arbitrary: h)
  case Nil
  then show ?case by simp
next
  case (Cons a ks)
  show ?case
  proof (cases "map_of (stack_objects h (bundle_stacks b)) a \<noteq> None \<or>
                a \<in> set object_prototype_members")
    case True
    then show ?thesis using Cons.prems by (auto simp: contents_def)
  next
    case False
    note new = this
    show ?thesis
    proof (cases "map_of us a")
      case None
      then show ?thesis using Cons.prems new by (auto simp: contents_def)
    next
      case (Some ua)
      note ua = this
      show ?thesis
      proof (cases "Parameters ua")
        case None
        then show ?thesis using Cons.prems new ua by (auto simp: contents_def)
      next
        case (Some da)
        let ?h1 = "h\<lparr>stack_objects := (stack_objects h)
                       (bundle_stacks b := AList.update a ua (stack_objects h (bundle_stacks b)))\<rparr>"
        let ?h2 = "?h1\<lparr>resource_objects := (resource_objects ?h1)
                       (bundle_rootResources b :=
                          AList.update (stackResourceId a)
                            (customNestedStack rc ids (parametersForStack params da) a)
                            (resource_objects ?h1 (bundle_rootResources b)))\<rparr>"
        have step: "mergeStacks_in_store rc ids params us ks b ?h2 = (r, h')"
          using Cons.prems new ua Some by (simp add: Let_def)
        have pure: "mergeStacks rc ids params us (a # ks) (contents h b) =
                    mergeStacks rc ids params us ks (contents ?h2 b)"
          using new ua Some by (simp add: Let_def contents_def)
        from Cons.IH[OF step] pure show ?thesis by simp
      qed
    qed
  qed
qed

lemma merge_in_store_simulates:
  assumes "merge_in_store rc u b h = (r, h')"
  shows "mergeUserConfigWithTransformOutput rc u (contents h b) = (outcome h' r, contents h' b)"
    and "\<forall>a. a \<noteq> bundle_resolvers b \<longrightarrow> resolver_objects h' a = resolver_objects h a"
    and "\<forall>a. a \<noteq> bundle_stacks b \<longrightarrow> stack_objects h' a = stack_objects h a"
    and "\<forall>a. a \<noteq> bundle_rootResources b \<longrightarrow> resource_objects h' a = resource_objects h a"
proof -
  let ?h0 = "h\<lparr>resolver_objects := (resolver_objects h)
                  (bundle_resolvers b :=
                     mergeResolvers (case user_resolvers u of Some r \<Rightarrow> r | None \<Rightarrow> [])
                       (resolver_objects h (bundle_resolvers b)))\<rparr>"
  have c0: "contents ?h0 b =
              (contents h b)\<lparr>resolvers :=
                 mergeResolvers (case user_resolvers u of Some r \<Rightarrow> r | None \<Rightarrow> [])
                   (resolvers (contents h b))\<rparr>"
    by (simp add: contents_def)
  have all: "mergeUserConfigWithTransformOutput rc u (contents h b) = (outcome h' r, contents h' b) \<and>
    (\<forall>a. a \<noteq> bundle_resolvers b \<longrightarrow> resolver_objects h' a = resolver_objects h a) \<and>
    (\<forall>a. a \<noteq> bundle_stacks b \<longrightarrow> stack_objects h' a = stack_objects h a) \<and>
    (\<forall>a. a \<noteq> bundle_rootResources b \<longrightarrow> resource_objects h' a = resource_objects h a)"
  proof (cases "bundle_rootParameters b")
    case None
    then have "r = Inl undefined_to_object" "h' = ?h0"
      using assms by (simp_all add: merge_in_store_def Let_def)
    then show ?thesis
      using None c0
      by (simp add: mergeUserConfigWithTransformOutput_def Let_def outcome_def contents_def)
  next
    case (Some rp)
    obtain r0 h0' where
      loop: "mergeStacks_in_store rc (allResourceIds (rootStack (contents ?h0 b)))
               (customStackParams rc (keys rp))
               (case user_stacks u of Some s \<Rightarrow> s | None \<Rightarrow> [])
               (keys (case user_stacks u of Some s \<Rightarrow> s | None \<Rightarrow> [])) b ?h0 = (r0, h0')"
      by (cases "mergeStacks_in_store rc (allResourceIds (rootStack (contents ?h0 b)))
               (customStackParams rc (keys rp))
               (case user_stacks u of Some s \<Rightarrow> s | None \<Rightarrow> [])
               (keys (case user_stacks u of Some s \<Rightarrow> s | None \<Rightarrow> [])) b ?h0") auto
    have res: "h' = h0'" "r = (case r0 of Inl e \<Rightarrow> Inl e | Inr _ \<Rightarrow> Inr b)"
      using assms Some loop by (auto simp: merge_in_store_def Let_def split: sum.splits)
    note sim = mergeStacks_in_store_simulates[OF loop]
    have root0: "Parameters (rootStack (contents h b)) = Some rp"
      using Some by (simp add: contents_def)
    have pure: "mergeUserConfigWithTransformOutput rc u (contents h b) =
                  (case r0 of Inl e \<Rightarrow> (Inl e, contents h0' b)
                           | Inr _ \<Rightarrow> (Inr (contents h0' b), contents h0' b))"
      using sim root0 c0
      by (auto simp: mergeUserConfigWithTransformOutput_def Let_def split: sum.splits)
    have "mergeUserConfigWithTransformOutput rc u (contents h b) = (outcome h' r, contents h' b)"
      using pure res by (auto simp: outcome_def split: sum.splits)
    moreover have "\<forall>a. a \<noteq> bundle_resolvers b \<longrightarrow> resolver_objects h' a = resolver_objects h a"
      using sim res by simp
    moreover have "\<forall>a. a \<noteq> bundle_stacks b \<longrightarrow> stack_objects h' a = stack_objects h a"
      using sim res by simp
    moreover have
      "\<forall>a. a \<noteq> bundle_rootResources b \<longrightarrow> resource_objects h' a = resource_objects h a"
      using sim res by simp
    ultimately show ?thesis by blast
  qed
  from all show "mergeUserConfigWithTransformOutput rc u (contents h b)
                   = (outcome h' r, contents h' b)" by blast
  from all show "\<forall>a. a \<noteq> bundle_resolvers b \<longrightarrow> resolver_objects h' a = resolver_objects h a"
    by blast
  from all show "\<forall>a. a \<noteq> bundle_stacks b \<longrightarrow> stack_objects h' a = stack_objects h a"
    by blast
  from all show
    "\<forall>a. a \<noteq> bundle_rootResources b \<longrightarrow> resource_objects h' a = resource_objects h a"
    by blast
qed

lemma merge_in_store_returns:
  "merge_in_store rc u b h = (Inr m, h') \<Longrightarrow> m = b"
  by (auto simp: merge_in_store_def Let_def split: option.splits prod.splits sum.splits)

text \<open>
  C5. Two runs of the merge with the same user bundle on transform-output bundles of
  identical structure, wherever the two bundles live and whatever else the two stores
  hold, end alike: either with the same error, or with bundles of identical structure
  (the same resolvers, the same stacks under the same names, the same root stack with
  the same resource ids, \<^verbatim>\<open>DependsOn\<close> lists and parameter maps).
\<close>

theorem merge_two_runs_identical:
  assumes "contents h b1 = contents h' b2"
    and "merge_in_store rc u b1 h = (r1, h1)"
    and "merge_in_store rc u b2 h' = (r2, h2)"
  shows "outcome h1 r1 = outcome h2 r2"
  using merge_in_store_simulates(1)[OF assms(2)] merge_in_store_simulates(1)[OF assms(3)]
    assms(1)
  by simp

text \<open>
  In particular for two runs one after the other in one store, on two bundles of
  identical structure that share no object: the first run does not touch the second
  bundle, and the second run leaves the output of the first as it was.
\<close>

lemma merge_two_runs_in_sequence:
  assumes "separate b1 b2"
    and "contents h b1 = contents h b2"
    and "merge_in_store rc u b1 h = (r1, h1)"
    and "merge_in_store rc u b2 h1 = (r2, h2)"
  shows "contents h1 b2 = contents h b1"
    and "outcome h1 r1 = outcome h2 r2"
    and "outcome h2 r1 = outcome h1 r1"
proof -
  note run1 = merge_in_store_simulates[OF assms(3)]
  note run2 = merge_in_store_simulates[OF assms(4)]
  have sep: "bundle_resolvers b1 \<noteq> bundle_resolvers b2" "bundle_stacks b1 \<noteq> bundle_stacks b2"
    "bundle_rootResources b1 \<noteq> bundle_rootResources b2"
    using assms(1) by (simp_all add: separate_def)
  have "contents h1 b2 = contents h b2"
    using run1(2,3,4) sep by (simp add: contents_def)
  then show same: "contents h1 b2 = contents h b1" using assms(2) by simp
  then show "outcome h1 r1 = outcome h2 r2"
    using run1(1) run2(1) by simp
  have "contents h2 b1 = contents h1 b1"
    using run2(2,3,4) sep by (simp add: contents_def)
  then show "outcome h2 r1 = outcome h1 r1"
    using merge_in_store_returns[of rc u b1 h _ h1] assms(3)
    by (cases r1) (auto simp: outcome_def)
qed

theorem merge_two_runs_identical_witness:
  "contents example_store (example_bundle 1)
     = contents (snd (merge_in_store example_constants example_user (example_bundle 1)
                        example_store)) (example_bundle 2) \<and>
   fst (merge_in_store example_constants example_user (example_bundle 1) example_store)
     = Inr (example_bundle 1) \<and>
   fst (merge_in_store example_constants example_user (example_bundle 2)
          (snd (merge_in_store example_constants example_user (example_bundle 1)
                  example_store)))
     = Inr (example_bundle 2) \<and>
   contents (snd (merge_in_store example_constants example_user (example_bundle 1)
                    example_store)) (example_bundle 1)
     = contents (snd (merge_in_store example_constants example_user (example_bundle 2)
                        (snd (merge_in_store example_constants example_user (example_bundle 1)
                                example_store)))) (example_bundle 2)"
proof -
  let ?run1 = "merge_in_store example_constants example_user (example_bundle 1) example_store"
  let ?run2 = "merge_in_store example_constants example_user (example_bundle 2) (snd ?run1)"
  have sep: "separate (example_bundle 1) (example_bundle 2)"
    by (simp add: separate_def example_bundle_def)
  have same0: "contents example_store (example_bundle 1)
                = contents example_store (example_bundle 2)"
    by (simp add: contents_def example_store_def example_bundle_def)
  have c1: "contents example_store (example_bundle 1) = example_transform"
    by (simp add: contents_def example_store_def example_bundle_def example_transform_def)
  have same: "contents example_store (example_bundle 1)
                = contents (snd ?run1) (example_bundle 2)"
    using merge_two_runs_in_sequence(1)[OF sep same0, of example_constants example_user
        "fst ?run1" "snd ?run1" "fst ?run2" "snd ?run2"]
    by simp
  have r1: "fst ?run1 = Inr (example_bundle 1)"
  proof -
    from merge_in_store_simulates(1)[of example_constants example_user "example_bundle 1"
        example_store "fst ?run1" "snd ?run1"]
    have "mergeUserConfigWithTransformOutput example_constants example_user example_transform
            = (outcome (snd ?run1) (fst ?run1), contents (snd ?run1) (example_bundle 1))"
      using c1 by simp
    then have "\<exists>m. outcome (snd ?run1) (fst ?run1) = Inr m"
      using example_merge_succeeds by (metis fst_conv)
    then obtain m where "fst ?run1 = Inr m"
      by (cases "fst ?run1") (auto simp: outcome_def)
    moreover from this have "m = example_bundle 1"
      using merge_in_store_returns[of example_constants example_user "example_bundle 1"
          example_store m "snd ?run1"] by (metis prod.collapse)
    ultimately show ?thesis by simp
  qed
  from merge_two_runs_identical[OF same, of example_constants example_user
      "fst ?run1" "snd ?run1" "fst ?run2" "snd ?run2"]
  have eq: "outcome (snd ?run1) (fst ?run1) = outcome (snd ?run2) (fst ?run2)"
    by simp
  then obtain m2 where r2': "fst ?run2 = Inr m2"
    using r1 by (cases "fst ?run2") (auto simp: outcome_def)
  then have "m2 = example_bundle 2"
    using merge_in_store_returns[of example_constants example_user "example_bundle 2"
        "snd ?run1" m2 "snd ?run2"] by (metis prod.collapse)
  with r2' have r2: "fst ?run2 = Inr (example_bundle 2)" by simp
  from eq r1 r2 have "contents (snd ?run1) (example_bundle 1)
                        = contents (snd ?run2) (example_bundle 2)"
    by (simp add: outcome_def)
  with same r1 r2 show ?thesis by simp
qed

subsection \<open>Strings\<close>

lemma split_where_not_Nil: "split_where P s \<noteq> []"
  by (induction s) (auto split: list.splits)

lemma split_where_no_separator:
  "\<forall>c\<in>set s. \<not> P c \<Longrightarrow> split_where P s = [s]"
  by (induction s) auto

lemma split_where_append_separator:
  "P c \<Longrightarrow> \<exists>p ps. split_where P (xs @ c # ys) = p # ps \<and> ps \<noteq> [] \<and>
                  last ps = last (split_where P ys)"
proof (induction xs)
  case Nil
  then show ?case by (simp add: split_where_not_Nil)
next
  case (Cons a xs)
  then obtain p ps where
    "split_where P (xs @ c # ys) = p # ps" "ps \<noteq> []" "last ps = last (split_where P ys)"
    by blast
  then show ?case by simp
qed

lemma extension_suffix:
  assumes "CHR ''.'' \<notin> set ext"
  shows "extension (base @ ''.'' @ ext) = ext"
proof -
  have "split_where (\<lambda>c. c = CHR ''.'') ext = [ext]"
    using assms by (intro split_where_no_separator) auto
  moreover obtain p ps where
    "split_where (\<lambda>c. c = CHR ''.'') (base @ CHR ''.'' # ext) = p # ps" "ps \<noteq> []"
    "last ps = last (split_where (\<lambda>c. c = CHR ''.'') ext)"
    using split_where_append_separator[of "\<lambda>c. c = CHR ''.''" "CHR ''.''" base ext] by auto
  ultimately show ?thesis by (simp add: extension_def)
qed

lemma stackResourceId_filter: "stackResourceId s = filter is_alpha s"
proof -
  have "join [] (split_where P s) = filter (\<lambda>c. \<not> P c) s" for P
  proof (induction s)
    case Nil
    then show ?case by simp
  next
    case (Cons c s)
    then show ?case
      by (cases "split_where P s"; cases "tl (split_where P s)")
         (auto simp: split_where_not_Nil)
  qed
  then show ?thesis by (simp add: stackResourceId_def)
qed

subsection \<open>Loader\<close>

lemma readStackFiles_skip_loaded:
  assumes "\<forall>g\<in>set pre. throwIfNotJSON g = Inr () \<and>
             (\<exists>buf s. readFile fs (path_join dir g) = Inr buf \<and> parse buf = Some s)"
  shows "\<exists>loaded'. readStackFiles parse fs dir stackFiles (pre @ rest) loaded
           = readStackFiles parse fs dir stackFiles rest loaded'"
  using assms
proof (induction pre arbitrary: loaded)
  case Nil
  then show ?case by auto
next
  case (Cons g pre)
  from Cons.prems obtain buf s where
    g: "throwIfNotJSON g = Inr ()" "readFile fs (path_join dir g) = Inr buf" "parse buf = Some s"
    by auto
  have "readStackFiles parse fs dir stackFiles ((g # pre) @ rest) loaded
          = readStackFiles parse fs dir stackFiles (pre @ rest) (AList.update g s loaded)"
    using g by simp
  moreover have "\<exists>loaded'. readStackFiles parse fs dir stackFiles (pre @ rest)
                   (AList.update g s loaded)
           = readStackFiles parse fs dir stackFiles rest loaded'"
    using Cons.prems by (intro Cons.IH) simp
  ultimately show ?case by simp
qed

text \<open>
  C8 (amended). The loader checks the stack files in the order of the directory listing
  and stops at the first failure. When it reaches a stack file whose extension (the part
  after the last dot) is not \<^verbatim>\<open>json\<close>, the load fails: with the yaml error for
  \<^verbatim>\<open>yaml\<close> and \<^verbatim>\<open>yml\<close>, with the invalid-extension error for any other
  extension. Both messages contain the name of the file. The loader reaches the file when
  the schema and the resolvers load and every stack file listed before it passes the
  extension check, is read and parses.
\<close>

theorem load_rejects_non_json_extension:
  assumes "readSchema fuel fs projectDir = Some (Inr schemaText)"
    and "readResolvers fs projectDir = Inr loadedResolvers"
    and "exists fs (path_join projectDir ''stacks'')"
    and "readDir fs (path_join projectDir ''stacks'') = Inr (pre @ stackFile # post)"
    and "\<forall>g\<in>set pre. throwIfNotJSON g = Inr () \<and>
           (\<exists>buf s. readFile fs (path_join (path_join projectDir ''stacks'') g) = Inr buf \<and>
                    parse buf = Some s)"
    and "extension stackFile \<noteq> ''json''"
  shows "readProjectConfiguration parse fuel fs projectDir =
           Some (Inl (Error
             (if extension stackFile = ''yaml'' \<or> extension stackFile = ''yml''
              then ''Yaml is not yet supported. Please convert the CloudFormation stack '' @
                   stackFile @ '' to json.''
              else ''Invalid extension .'' @ extension stackFile @ '' for stack '' @
                   stackFile)))"
proof -
  let ?dir = "path_join projectDir ''stacks''"
  from readStackFiles_skip_loaded[OF assms(5), of "pre @ stackFile # post" "stackFile # post" "[]"]
  obtain loaded' where
    "readStackFiles parse fs ?dir (pre @ stackFile # post) (pre @ stackFile # post) []
       = readStackFiles parse fs ?dir (pre @ stackFile # post) (stackFile # post) loaded'"
    by blast
  also have "\<dots> = Inl (Error
             (if extension stackFile = ''yaml'' \<or> extension stackFile = ''yml''
              then yaml_message stackFile else invalid_extension_message stackFile))"
    using assms(6) by (simp add: throwIfNotJSON_def)
  finally have "readStacks parse fs projectDir = Inl (Error
             (if extension stackFile = ''yaml'' \<or> extension stackFile = ''yml''
              then yaml_message stackFile else invalid_extension_message stackFile))"
    using assms(3,4) by (simp add: readStacks_def Let_def)
  then show ?thesis
    using assms(1,2)
    by (simp add: readProjectConfiguration_def yaml_message_def invalid_extension_message_def)
qed

lemma example_schema:
  "readSchema fuel ((''proj'', Dir) # (''proj/schema.graphql'', File c) # rest) ''proj''
     = Some (Inr c)"
  by (simp add: readSchema_def exists_def existsSync_def readFile_def readFileSync_def
        path_join_def Let_def)

lemma example_no_resolvers:
  "map_of fs ''proj/resolvers'' = None \<Longrightarrow> readResolvers fs ''proj'' = Inr []"
  by (simp add: readResolvers_def exists_def existsSync_def path_join_def)

theorem load_rejects_non_json_extension_witness:
  "extension ''legacy.yaml'' \<noteq> ''json'' \<and> extension ''notes.txt'' \<noteq> ''json'' \<and>
   readProjectConfiguration example_parse 0 project_with_yaml ''proj'' =
     Some (Inl (Error
       ''Yaml is not yet supported. Please convert the CloudFormation stack legacy.yaml to json.'')) \<and>
   readProjectConfiguration example_parse 0 project_with_text ''proj'' =
     Some (Inl (Error ''Invalid extension .txt for stack notes.txt''))"
proof -
  have e1: "extension ''legacy.yaml'' = ''yaml''" by (simp add: extension_def)
  have e2: "extension ''notes.txt'' = ''txt''" by (simp add: extension_def)
  have e3: "extension ''custom.json'' = ''json''" by (simp add: extension_def)
  have y1: "readSchema 0 project_with_yaml ''proj'' = Some (Inr ''type Post { id: ID! }'')"
    unfolding project_with_yaml_def by (rule example_schema)
  have y2: "readResolvers project_with_yaml ''proj'' = Inr []"
    by (rule example_no_resolvers) (simp add: project_with_yaml_def)
  have y3: "exists project_with_yaml (path_join ''proj'' ''stacks'')"
    by (simp add: exists_def existsSync_def path_join_def project_with_yaml_def)
  have y4: "readDir project_with_yaml (path_join ''proj'' ''stacks'')
              = Inr ([''custom.json''] @ ''legacy.yaml'' # [''notes.txt''])"
    by (simp add: readDir_def readdirSync_def path_join_def project_with_yaml_def keys_def
          dirname_def basename_def)
  have y5: "\<forall>g\<in>set [''custom.json'']. throwIfNotJSON g = Inr () \<and>
           (\<exists>buf s. readFile project_with_yaml (path_join (path_join ''proj'' ''stacks'') g)
                      = Inr buf \<and> example_parse buf = Some s)"
    by (simp add: throwIfNotJSON_def e3 readFile_def readFileSync_def path_join_def
          project_with_yaml_def example_parse_def)
  have y6: "extension ''legacy.yaml'' \<noteq> ''json''" by (simp add: e1)
  have t1: "readSchema 0 project_with_text ''proj'' = Some (Inr ''type Post { id: ID! }'')"
    unfolding project_with_text_def by (rule example_schema)
  have t2: "readResolvers project_with_text ''proj'' = Inr []"
    by (rule example_no_resolvers) (simp add: project_with_text_def)
  have t3: "exists project_with_text (path_join ''proj'' ''stacks'')"
    by (simp add: exists_def existsSync_def path_join_def project_with_text_def)
  have t4: "readDir project_with_text (path_join ''proj'' ''stacks'')
              = Inr ([''custom.json''] @ ''notes.txt'' # [])"
    by (simp add: readDir_def readdirSync_def path_join_def project_with_text_def keys_def
          dirname_def basename_def)
  have t5: "\<forall>g\<in>set [''custom.json'']. throwIfNotJSON g = Inr () \<and>
           (\<exists>buf s. readFile project_with_text (path_join (path_join ''proj'' ''stacks'') g)
                      = Inr buf \<and> example_parse buf = Some s)"
    by (simp add: throwIfNotJSON_def e3 readFile_def readFileSync_def path_join_def
          project_with_text_def example_parse_def)
  have t6: "extension ''notes.txt'' \<noteq> ''json''" by (simp add: e2)
  from load_rejects_non_json_extension[OF y1 y2 y3 y4 y5 y6]
       load_rejects_non_json_extension[OF t1 t2 t3 t4 t5 t6] y6 t6
  show ?thesis by (simp add: e1 e2)
qed

text \<open>
  C8 as stated fails when a stack file with another bad extension is listed first: with
  \<^verbatim>\<open>a.txt\<close> before \<^verbatim>\<open>b.yaml\<close> the load fails with the invalid-extension error
  for \<^verbatim>\<open>a.txt\<close>, not with the yaml error, and the message does not name
  \<^verbatim>\<open>b.yaml\<close>.
\<close>

theorem load_yaml_file_not_reported:
  "extension ''b.yaml'' = ''yaml'' \<and>
   readProjectConfiguration example_parse 0 project_text_then_yaml ''proj'' =
     Some (Inl (Error ''Invalid extension .txt for stack a.txt'')) \<and>
   readProjectConfiguration example_parse 0 project_text_then_yaml ''proj'' \<noteq>
     Some (Inl (Error
       ''Yaml is not yet supported. Please convert the CloudFormation stack b.yaml to json.'')) \<and>
   \<not> sublist ''b.yaml'' ''Invalid extension .txt for stack a.txt''"
proof -
  have e: "extension ''a.txt'' = ''txt''" "extension ''b.yaml'' = ''yaml''"
    by (simp_all add: extension_def)
  have s: "readStacks example_parse project_text_then_yaml ''proj'' =
     Inl (Error ''Invalid extension .txt for stack a.txt'')"
    by (simp add: readStacks_def exists_def existsSync_def readDir_def readdirSync_def
          path_join_def project_text_then_yaml_def keys_def dirname_def basename_def
          throwIfNotJSON_def e invalid_extension_message_def)
  have r: "readResolvers project_text_then_yaml ''proj'' = Inr []"
    by (rule example_no_resolvers) (simp add: project_text_then_yaml_def)
  have c: "readSchema 0 project_text_then_yaml ''proj''
              = Some (Inr ''type Post { id: ID! }'')"
    unfolding project_text_then_yaml_def by (rule example_schema)
  have l: "readProjectConfiguration example_parse 0 project_text_then_yaml ''proj'' =
     Some (Inl (Error ''Invalid extension .txt for stack a.txt''))"
    by (simp add: readProjectConfiguration_def s r c)
  have n: "\<not> sublist ''b.yaml'' ''Invalid extension .txt for stack a.txt''"
    by (simp add: sublist_Cons_right prefix_Cons)
  show ?thesis using e(2) l n by simp
qed

lemma load_malformed_template:
  assumes "readSchema fuel fs projectDir = Some (Inr schemaText)"
    and "readResolvers fs projectDir = Inr loadedResolvers"
    and "exists fs (path_join projectDir ''stacks'')"
    and "readDir fs (path_join projectDir ''stacks'') = Inr (pre @ stackFile # post)"
    and "\<forall>g\<in>set pre. throwIfNotJSON g = Inr () \<and>
           (\<exists>buf s. readFile fs (path_join (path_join projectDir ''stacks'') g) = Inr buf \<and>
                    parse buf = Some s)"
    and "throwIfNotJSON stackFile = Inr ()"
    and "readFile fs (path_join (path_join projectDir ''stacks'') stackFile) = Inr buf"
    and "parse buf = None"
  shows "readProjectConfiguration parse fuel fs projectDir =
           Some (Inl (Error (''The CloudFormation template '' @
                             join '','' (pre @ stackFile # post) @
                             '' does not contain valid JSON.'')))"
proof -
  let ?dir = "path_join projectDir ''stacks''"
  from readStackFiles_skip_loaded[OF assms(5), of "pre @ stackFile # post" "stackFile # post" "[]"]
  obtain loaded' where
    "readStackFiles parse fs ?dir (pre @ stackFile # post) (pre @ stackFile # post) []
       = readStackFiles parse fs ?dir (pre @ stackFile # post) (stackFile # post) loaded'"
    by blast
  also have "\<dots> = Inl (Error (invalid_json_message (pre @ stackFile # post)))"
    using assms(6,7,8) by simp
  finally have "readStacks parse fs projectDir
                  = Inl (Error (invalid_json_message (pre @ stackFile # post)))"
    using assms(3,4) by (simp add: readStacks_def Let_def)
  then show ?thesis
    using assms(1,2) by (simp add: readProjectConfiguration_def invalid_json_message_def)
qed

text \<open>
  C9 (the code departs from the claim). The message of the error for a stack file that
  does not parse interpolates \<^verbatim>\<open>stackFiles\<close>, not \<^verbatim>\<open>stackFile\<close>: it lists every
  file of the stacks directory. With \<^verbatim>\<open>a.json\<close> and \<^verbatim>\<open>b.json\<close> in the directory the
  message is the same whether the first or the second is the malformed one, so it does
  not name the file that failed.
\<close>

theorem malformed_template_message_lists_all_files:
  "readProjectConfiguration example_parse fuel project_second_malformed ''proj'' =
     Some (Inl (Error
       ''The CloudFormation template a.json,b.json does not contain valid JSON.'')) \<and>
   readProjectConfiguration example_parse fuel project_first_malformed ''proj'' =
     Some (Inl (Error
       ''The CloudFormation template a.json,b.json does not contain valid JSON.''))"
proof -
  have e: "extension ''a.json'' = ''json''" "extension ''b.json'' = ''json''"
    by (simp_all add: extension_def)
  have s1: "readStacks example_parse project_second_malformed ''proj'' =
     Inl (Error ''The CloudFormation template a.json,b.json does not contain valid JSON.'')"
    by (simp add: readStacks_def exists_def existsSync_def readDir_def readdirSync_def
          path_join_def project_second_malformed_def keys_def dirname_def basename_def
          throwIfNotJSON_def e readFile_def readFileSync_def example_parse_def
          invalid_json_message_def)
  have s2: "readStacks example_parse project_first_malformed ''proj'' =
     Inl (Error ''The CloudFormation template a.json,b.json does not contain valid JSON.'')"
    by (simp add: readStacks_def exists_def existsSync_def readDir_def readdirSync_def
          path_join_def project_first_malformed_def keys_def dirname_def basename_def
          throwIfNotJSON_def e readFile_def readFileSync_def example_parse_def
          invalid_json_message_def)
  have r1: "readResolvers project_second_malformed ''proj'' = Inr []"
    by (rule example_no_resolvers) (simp add: project_second_malformed_def)
  have r2: "readResolvers project_first_malformed ''proj'' = Inr []"
    by (rule example_no_resolvers) (simp add: project_first_malformed_def)
  have c1: "readSchema fuel project_second_malformed ''proj''
              = Some (Inr ''type Post { id: ID! }'')"
    unfolding project_second_malformed_def by (rule example_schema)
  have c2: "readSchema fuel project_first_malformed ''proj''
              = Some (Inr ''type Post { id: ID! }'')"
    unfolding project_first_malformed_def by (rule example_schema)
  show ?thesis
    by (simp add: readProjectConfiguration_def s1 s2 r1 r2 c1 c2)
qed

subsection \<open>Writer and orchestrator\<close>

lemma emptyDirectory_missing:
  "map_of fs directory = None \<Longrightarrow>
   emptyDirectory fuel directory fs = Some (Inl (ENOENT directory), fs)"
  by (cases fuel) (simp_all add: emptyDirectory_body_def readdirSync_def)

text \<open>
  C10. When the target directory does not exist, \<^verbatim>\<open>writeDeploymentToDisk\<close> fails in
  \<^verbatim>\<open>emptyDirectory\<close>, at its first statement, with the \<^verbatim>\<open>ENOENT\<close> error of
  \<^verbatim>\<open>fs.readdirSync\<close>; the file system is left as it was: the directory has not been
  created and no file has been written. This holds for every bundle.
\<close>

theorem writeDeploymentToDisk_requires_directory:
  assumes "\<not> existsSync fs directory"
  shows "emptyDirectory fuel directory fs = Some (Inl (ENOENT directory), fs) \<and>
         writeDeploymentToDisk stringify fuel d directory fileName fs
           = Some (Inl (ENOENT directory), fs)"
  using assms
  by (simp add: writeDeploymentToDisk_def emptyDirectory_missing existsSync_def)

theorem writeDeploymentToDisk_requires_directory_witness:
  "\<not> existsSync project_without_build ''proj/build'' \<and>
   writeDeploymentToDisk example_stringify 3 example_transform ''proj/build''
     ''rootStack.json'' project_without_build
     = Some (Inl (ENOENT ''proj/build''), project_without_build)"
proof -
  have h: "\<not> existsSync project_without_build ''proj/build''"
    by (simp add: existsSync_def project_without_build_def)
  from writeDeploymentToDisk_requires_directory[OF h] h show ?thesis by blast
qed

lemma example_load:
  "readProjectConfiguration example_parse fuel project_without_build ''proj''
     = Some (Inr \<lparr>user_schema = Some ''type Post { id: ID! }'',
                  user_resolvers = Some [], user_stacks = Some []\<rparr>)"
  by (simp add: readProjectConfiguration_def readSchema_def readResolvers_def readStacks_def
        exists_def existsSync_def readFile_def readFileSync_def path_join_def
        project_without_build_def Let_def)

lemma example_merge_no_user_stacks:
  "fst (mergeUserConfigWithTransformOutput example_constants
          \<lparr>user_schema = Some ''type Post { id: ID! }'',
           user_resolvers = Some [], user_stacks = Some []\<rparr> example_transform)
     = Inr example_transform"
  by (simp add: mergeUserConfigWithTransformOutput_def mergeResolvers_def keys_def
        example_transform_def Let_def)

text \<open>
  Errors of the loader, of the transform and of the merge reach the caller of
  \<^verbatim>\<open>buildProject\<close>; an error of the writer does not.
\<close>

lemma buildProject_loader_error:
  "readProjectConfiguration parse fuel fs (projectDirectory opts) = Some (Inl e) \<Longrightarrow>
   buildProject rc parse stringify fuel opts fs = Some (Inl e, fs)"
  by (simp add: buildProject_def)

lemma buildProject_transform_error:
  "readProjectConfiguration parse fuel fs (projectDirectory opts) = Some (Inr u) \<Longrightarrow>
   user_schema u = Some schemaText \<Longrightarrow> transform opts schemaText = Inl e \<Longrightarrow>
   buildProject rc parse stringify fuel opts fs = Some (Inl e, fs)"
  by (simp add: buildProject_def)

lemma buildProject_merger_error:
  "readProjectConfiguration parse fuel fs (projectDirectory opts) = Some (Inr u) \<Longrightarrow>
   user_schema u = Some schemaText \<Longrightarrow> transform opts schemaText = Inr t \<Longrightarrow>
   fst (mergeUserConfigWithTransformOutput rc u t) = Inl e \<Longrightarrow>
   buildProject rc parse stringify fuel opts fs = Some (Inl e, fs)"
  by (simp add: buildProject_def)

lemma buildProject_writer_error:
  "readProjectConfiguration parse fuel fs (projectDirectory opts) = Some (Inr u) \<Longrightarrow>
   user_schema u = Some schemaText \<Longrightarrow> transform opts schemaText = Inr t \<Longrightarrow>
   fst (mergeUserConfigWithTransformOutput rc u t) = Inr m \<Longrightarrow>
   writeDeploymentToDisk stringify fuel m (path_join (projectDirectory opts) ''build'')
     (case rootStackFileName opts of Some name \<Rightarrow> name | None \<Rightarrow> ''rootStack.json'') fs
     = Some (Inl e, fs') \<Longrightarrow>
   buildProject rc parse stringify fuel opts fs = Some (Inr (), fs')"
  by (simp add: buildProject_def)

text \<open>
  C3 (the code departs from the claim). The project has a schema and no \<^verbatim>\<open>build\<close>
  directory. Loading, transforming and merging succeed, the writer throws
  \<^verbatim>\<open>ENOENT\<close>, and \<^verbatim>\<open>buildProject\<close> nevertheless resolves: the promise of
  \<^verbatim>\<open>writeDeploymentToDisk\<close> is dropped.
\<close>

theorem buildProject_swallows_writer_error:
  "writeDeploymentToDisk example_stringify fuel example_transform ''proj/build''
     ''rootStack.json'' project_without_build
     = Some (Inl (ENOENT ''proj/build''), project_without_build) \<and>
   buildProject example_constants example_parse example_stringify fuel example_options
     project_without_build
     = Some (Inr (), project_without_build)"
proof -
  have w: "writeDeploymentToDisk example_stringify fuel example_transform ''proj/build''
     ''rootStack.json'' project_without_build
     = Some (Inl (ENOENT ''proj/build''), project_without_build)"
    by (simp add: writeDeploymentToDisk_def emptyDirectory_missing project_without_build_def)
  then show ?thesis
    by (simp add: buildProject_def example_load example_merge_no_user_stacks
          example_options_def path_join_def)
qed

end
